theory Spec2Isabelle
  imports Complex_Main "HOL-Library.List_Lexorder" "HOL-Library.Word"
begin

section \<open>Numbers\<close>

text \<open>
  A JavaScript \<^verbatim>\<open>number\<close> is an IEEE 754 double: \<^verbatim>\<open>NaN\<close>, one of the two
  infinities, or a finite value. A finite value is held as the real number it denotes;
  the reals that are doubles are those of the form \<open>m * 2 ^ e\<close> with a significand
  \<open>m\<close> below \<open>2 ^ 53\<close> in magnitude and an exponent \<open>e\<close> from -1074 to 971. Negative
  zero is not told apart from zero: the methods modelled here never look at the sign of
  a zero, except through the sign of the infinity that a division by it gives, and the
  one quotient whose divisor is computed is handed to \<^verbatim>\<open>Math.acos\<close>, which answers
  \<^verbatim>\<open>NaN\<close> for either infinity.
\<close>

datatype jsnum = NaN | PosInf | NegInf | Fin real

definition is_double :: "real \<Rightarrow> bool" where
  "is_double x \<longleftrightarrow>
     (\<exists>m e. x = real_of_int m * 2 powi e \<and> \<bar>m\<bar> < 2 ^ 53 \<and> - 1074 \<le> e \<and> e \<le> 971)"

definition max_double :: real where
  "max_double = (2 ^ 53 - 1) * 2 powi 971"

text \<open>
  Rounding to nearest, ties to even, the rounding of every arithmetic operation on
  doubles: \<open>round_down\<close> and \<open>round_up\<close> are the doubles next to a real on either
  side, \<open>nearest_double\<close> picks the closer one and, half way between the two, the one
  with an even significand. A result at or beyond \<open>max_double\<close> plus half the distance
  to the double below it overflows to an infinity.
\<close>

definition round_down :: "real \<Rightarrow> real" where
  "round_down x = Max {d. is_double d \<and> d \<le> x}"

definition round_up :: "real \<Rightarrow> real" where
  "round_up x = Min {d. is_double d \<and> x \<le> d}"

definition even_double :: "real \<Rightarrow> bool" where
  "even_double x \<longleftrightarrow>
     (\<exists>m e. x = real_of_int (2 * m) * 2 powi e \<and> \<bar>2 * m\<bar> < 2 ^ 53 \<and> - 1074 \<le> e \<and> e \<le> 971)"

definition nearest_double :: "real \<Rightarrow> real" where
  "nearest_double x =
     (let lo = round_down x; hi = round_up x
      in if x - lo < hi - x then lo
         else if hi - x < x - lo then hi
         else if even_double lo then lo else hi)"

definition round_double :: "real \<Rightarrow> jsnum" where
  "round_double x =
     (if max_double + 2 powi 970 \<le> \<bar>x\<bar> then (if 0 < x then PosInf else NegInf)
      else if max_double < x then Fin max_double
      else if x < - max_double then Fin (- max_double)
      else Fin (nearest_double x))"

text \<open>
  A decimal literal of the source denotes the double nearest to it, and so does
  \<^verbatim>\<open>toNumber()\<close> of a \<^verbatim>\<open>Big\<close> decimal.
\<close>

definition literal :: "real \<Rightarrow> real" where
  "literal x = nearest_double x"

text \<open>
  \<^verbatim>\<open>Long_MIN_VALUE\<close> and \<^verbatim>\<open>Double_MIN_VALUE\<close> of polyfills/Utils are both
  \<^verbatim>\<open>NaN\<close>.
\<close>

definition Long_MIN_VALUE :: jsnum where
  "Long_MIN_VALUE = NaN"

text \<open>\<^verbatim>\<open>Number.isNaN\<close>.\<close>

fun isNaN :: "jsnum \<Rightarrow> bool" where
  "isNaN NaN = True"
| "isNaN x = False"

text \<open>
  The arithmetic operators. An operand \<^verbatim>\<open>NaN\<close> gives \<^verbatim>\<open>NaN\<close>, and so do the
  undefined forms (the difference of two equal infinities, zero times an infinity, the
  quotient of two infinities or of two zeros); a finite result is rounded.
\<close>

fun js_negate :: "jsnum \<Rightarrow> jsnum" where
  "js_negate NaN = NaN"
| "js_negate PosInf = NegInf"
| "js_negate NegInf = PosInf"
| "js_negate (Fin x) = Fin (- x)"

fun js_plus :: "jsnum \<Rightarrow> jsnum \<Rightarrow> jsnum" where
  "js_plus (Fin x) (Fin y) = round_double (x + y)"
| "js_plus NaN b = NaN"
| "js_plus a NaN = NaN"
| "js_plus PosInf NegInf = NaN"
| "js_plus NegInf PosInf = NaN"
| "js_plus PosInf b = PosInf"
| "js_plus NegInf b = NegInf"
| "js_plus a PosInf = PosInf"
| "js_plus a NegInf = NegInf"

definition js_minus :: "jsnum \<Rightarrow> jsnum \<Rightarrow> jsnum" where
  "js_minus a b = js_plus a (js_negate b)"

text \<open>The sign of a number that is not \<^verbatim>\<open>NaN\<close>: -1, 0 or 1.\<close>

fun js_sign :: "jsnum \<Rightarrow> int" where
  "js_sign NaN = 0"
| "js_sign PosInf = 1"
| "js_sign NegInf = - 1"
| "js_sign (Fin x) = (if 0 < x then 1 else if x < 0 then - 1 else 0)"

definition infinity_of_sign :: "int \<Rightarrow> jsnum" where
  "infinity_of_sign s = (if s = 0 then NaN else if 0 < s then PosInf else NegInf)"

fun js_times :: "jsnum \<Rightarrow> jsnum \<Rightarrow> jsnum" where
  "js_times (Fin x) (Fin y) = round_double (x * y)"
| "js_times NaN b = NaN"
| "js_times a NaN = NaN"
| "js_times a b = infinity_of_sign (js_sign a * js_sign b)"

fun js_divide :: "jsnum \<Rightarrow> jsnum \<Rightarrow> jsnum" where
  "js_divide (Fin x) (Fin y) = (if y = 0 then infinity_of_sign (js_sign (Fin x)) else round_double (x / y))"
| "js_divide NaN b = NaN"
| "js_divide a NaN = NaN"
| "js_divide (Fin x) b = Fin 0"
| "js_divide a (Fin y) = infinity_of_sign (js_sign a * (if y < 0 then - 1 else 1))"
| "js_divide a b = NaN"

text \<open>
  The comparisons: false when an operand is \<^verbatim>\<open>NaN\<close>. \<open>strict_eq\<close> is \<^verbatim>\<open>===\<close> on
  two numbers, so that the test \<^verbatim>\<open>offset === Long_MIN_VALUE\<close> of
  \<^verbatim>\<open>getTimeOffset\<close> never holds.
\<close>

fun js_less :: "jsnum \<Rightarrow> jsnum \<Rightarrow> bool" where
  "js_less (Fin x) (Fin y) = (x < y)"
| "js_less NaN b = False"
| "js_less a NaN = False"
| "js_less NegInf NegInf = False"
| "js_less NegInf b = True"
| "js_less a PosInf = (a \<noteq> PosInf)"
| "js_less a b = False"

definition js_greater :: "jsnum \<Rightarrow> jsnum \<Rightarrow> bool" where
  "js_greater a b = js_less b a"

fun strict_eq :: "jsnum \<Rightarrow> jsnum \<Rightarrow> bool" where
  "strict_eq NaN b = False"
| "strict_eq a NaN = False"
| "strict_eq a b = (a = b)"

definition js_greater_eq :: "jsnum \<Rightarrow> jsnum \<Rightarrow> bool" where
  "js_greater_eq a b = (js_less b a \<or> strict_eq a b)"

text \<open>
  \<^verbatim>\<open>Math.trunc\<close> and \<^verbatim>\<open>Math.floor\<close>: on a finite number the rounding towards zero
  and the rounding down to a whole number, both exact.
\<close>

definition truncation :: "real \<Rightarrow> int" where
  "truncation x = (if 0 \<le> x then \<lfloor>x\<rfloor> else \<lceil>x\<rceil>)"

fun Math_trunc :: "jsnum \<Rightarrow> jsnum" where
  "Math_trunc (Fin x) = Fin (real_of_int (truncation x))"
| "Math_trunc a = a"

fun Math_floor :: "jsnum \<Rightarrow> jsnum" where
  "Math_floor (Fin x) = Fin (real_of_int \<lfloor>x\<rfloor>)"
| "Math_floor a = a"

text \<open>
  The outcomes of a call other than a value: the two exceptions the modelled code can
  raise, and \<open>NoReturn\<close> for a call that never returns. The result of a call is a sum;
  \<open>try_bind\<close> passes the value of a call that returned on, and anything else through.
\<close>

datatype error = RangeError | TypeError | NoReturn

definition try_bind :: "error + 'a \<Rightarrow> ('a \<Rightarrow> error + 'b) \<Rightarrow> error + 'b" where
  "try_bind r f = (case r of Inl e \<Rightarrow> Inl e | Inr v \<Rightarrow> f v)"

section \<open>Dates, times of day and instants\<close>

text \<open>
  A \<^verbatim>\<open>Temporal.PlainDate\<close> is represented by its day count since 1970-01-01 in the
  ISO calendar. The dates Temporal represents run from -271821-04-19 to 275760-09-13,
  the days -100000001 to 100000000; \<^verbatim>\<open>date.add({ days: n })\<close> throws a
  \<^verbatim>\<open>RangeError\<close> when the sum leaves that range.
\<close>

type_synonym PlainDate = int

definition valid_PlainDate :: "PlainDate \<Rightarrow> bool" where
  "valid_PlainDate d \<longleftrightarrow> - 100000001 \<le> d \<and> d \<le> 100000000"

definition add_days :: "PlainDate \<Rightarrow> int \<Rightarrow> error + PlainDate" where
  "add_days date n = (if valid_PlainDate (date + n) then Inr (date + n) else Inl RangeError)"

text \<open>
  The civil year of a day count and the day count of the first of January, by the usual
  era arithmetic of the proleptic Gregorian calendar; \<open>dayOfYear\<close> is the
  \<^verbatim>\<open>dayOfYear\<close> property of a \<^verbatim>\<open>Temporal.PlainDate\<close> (1 on the first of January).
\<close>

definition year_of_day :: "PlainDate \<Rightarrow> int" where
  "year_of_day date =
     (let z = date + 719468;
          era = z div 146097;
          doe = z mod 146097;
          yoe = (doe - doe div 1460 + doe div 36524 - doe div 146096) div 365;
          doy = doe - (365 * yoe + yoe div 4 - yoe div 100)
      in yoe + era * 400 + (if doy < 306 then 0 else 1))"

definition first_day_of_year :: "int \<Rightarrow> PlainDate" where
  "first_day_of_year y =
     (let p = y - 1 in 365 * p + p div 4 - p div 100 + p div 400 - 719162)"

definition dayOfYear :: "PlainDate \<Rightarrow> int" where
  "dayOfYear date = date - first_day_of_year (year_of_day date) + 1"

text \<open>
  A \<^verbatim>\<open>Temporal.PlainTime\<close> built from hour, minute, second and millisecond. The
  constructor converts each argument to a whole number, with a \<^verbatim>\<open>RangeError\<close> for
  \<^verbatim>\<open>NaN\<close> and the infinities, and rejects a field outside its range with a
  \<^verbatim>\<open>RangeError\<close>.
\<close>

record PlainTime =
  hour :: int
  minute :: int
  second :: int
  millisecond :: int

fun to_integer :: "jsnum \<Rightarrow> error + int" where
  "to_integer (Fin x) = Inr (truncation x)"
| "to_integer a = Inl RangeError"

definition new_PlainTime :: "jsnum \<Rightarrow> jsnum \<Rightarrow> jsnum \<Rightarrow> jsnum \<Rightarrow> error + PlainTime" where
  "new_PlainTime hours minutes seconds milliseconds =
     try_bind (to_integer hours) (\<lambda>h.
     try_bind (to_integer minutes) (\<lambda>m.
     try_bind (to_integer seconds) (\<lambda>s.
     try_bind (to_integer milliseconds) (\<lambda>ms.
       if 0 \<le> h \<and> h \<le> 23 \<and> 0 \<le> m \<and> m \<le> 59 \<and> 0 \<le> s \<and> s \<le> 59 \<and> 0 \<le> ms \<and> ms \<le> 999
       then Inr \<lparr>hour = h, minute = m, second = s, millisecond = ms\<rparr>
       else Inl RangeError))))"

text \<open>
  A \<^verbatim>\<open>Temporal.ZonedDateTime\<close> is an instant, held as nanoseconds since the epoch,
  and a time zone identifier. An instant lies within 8.64e21 nanoseconds (100 million
  days) of the epoch. \<open>epochMilliseconds\<close> is the property of that name: the whole
  milliseconds since the epoch, rounded down.
\<close>

record ZonedDateTime =
  epochNanoseconds :: int
  timeZoneId :: string

definition valid_instant :: "int \<Rightarrow> bool" where
  "valid_instant ns \<longleftrightarrow> \<bar>ns\<bar> \<le> 8640000000000000000000"

definition epochMilliseconds :: "ZonedDateTime \<Rightarrow> int" where
  "epochMilliseconds z = epochNanoseconds z div 1000000"

text \<open>
  \<^verbatim>\<open>date.toZonedDateTime({ timeZone: 'UTC', plainTime })\<close>, which throws a
  \<^verbatim>\<open>RangeError\<close> when the instant is out of range; \<^verbatim>\<open>withTimeZone\<close>, which keeps
  the instant; and \<^verbatim>\<open>add({ milliseconds: n })\<close>, which throws a \<^verbatim>\<open>RangeError\<close>
  when \<open>n\<close> is not finite or the sum is out of range, and keeps the part of the instant
  below the millisecond.
\<close>

definition toZonedDateTime_UTC :: "PlainDate \<Rightarrow> PlainTime \<Rightarrow> error + ZonedDateTime" where
  "toZonedDateTime_UTC date t =
     (let ns = (86400000 * date + 3600000 * hour t + 60000 * minute t + 1000 * second t
                + millisecond t) * 1000000
      in if valid_instant ns then Inr \<lparr>epochNanoseconds = ns, timeZoneId = ''UTC''\<rparr>
         else Inl RangeError)"

definition withTimeZone :: "ZonedDateTime \<Rightarrow> string \<Rightarrow> ZonedDateTime" where
  "withTimeZone z tz = z\<lparr>timeZoneId := tz\<rparr>"

definition add_milliseconds :: "ZonedDateTime \<Rightarrow> jsnum \<Rightarrow> error + ZonedDateTime" where
  "add_milliseconds z n =
     try_bind (to_integer n) (\<lambda>ms.
       if valid_instant (epochNanoseconds z + ms * 1000000)
       then Inr (z\<lparr>epochNanoseconds := epochNanoseconds z + ms * 1000000\<rparr>)
       else Inl RangeError)"

section \<open>The location and the calculator interface\<close>

text \<open>
  Modelled from the spec: the \<^verbatim>\<open>GeoLocation\<close> value object (util/GeoLocation), by
  what its accessors return. The specification gives a latitude from -90 to 90 degrees,
  a longitude from -180 to 180 degrees, an elevation of at least 0 metres, a time zone
  identifier and an antimeridian adjustment of -1, 0 or 1; the three numbers are finite
  doubles, and the time zone identifier is one that Temporal knows.
\<close>

record GeoLocation =
  getLatitude :: real
  getLongitude :: real
  getElevation :: real
  getAntimeridianAdjustment :: int
  getTimeZone :: string

definition valid_GeoLocation :: "GeoLocation \<Rightarrow> bool" where
  "valid_GeoLocation g \<longleftrightarrow>
     is_double (getLatitude g) \<and> - 90 \<le> getLatitude g \<and> getLatitude g \<le> 90
     \<and> is_double (getLongitude g) \<and> - 180 \<le> getLongitude g \<and> getLongitude g \<le> 180
     \<and> is_double (getElevation g) \<and> 0 \<le> getElevation g
     \<and> - 1 \<le> getAntimeridianAdjustment g \<and> getAntimeridianAdjustment g \<le> 1"

text \<open>
  The abstract \<^verbatim>\<open>AstronomicalCalculator\<close>: an implementation supplies
  \<^verbatim>\<open>getUTCSunrise\<close> and \<^verbatim>\<open>getUTCSunset\<close>, each from the date, the location, the
  zenith and the flag \<^verbatim>\<open>adjustForElevation\<close> to a number, the fractional hour or
  \<^verbatim>\<open>NaN\<close>; like any call, it may also throw or not return.
\<close>

record AstronomicalCalculator =
  calc_getUTCSunrise :: "PlainDate \<Rightarrow> GeoLocation \<Rightarrow> jsnum \<Rightarrow> bool \<Rightarrow> error + jsnum"
  calc_getUTCSunset :: "PlainDate \<Rightarrow> GeoLocation \<Rightarrow> jsnum \<Rightarrow> bool \<Rightarrow> error + jsnum"

section \<open>AstronomicalCalendar\<close>

record AstronomicalCalendar =
  date :: PlainDate
  geoLocation :: GeoLocation
  astronomicalCalculator :: AstronomicalCalculator

definition GEOMETRIC_ZENITH :: jsnum where
  "GEOMETRIC_ZENITH = Fin 90"

definition MINUTE_MILLIS :: jsnum where
  "MINUTE_MILLIS = Fin (60 * 1000)"

definition getAdjustedDate :: "AstronomicalCalendar \<Rightarrow> error + PlainDate" where
  "getAdjustedDate c =
     (let offset = getAntimeridianAdjustment (geoLocation c)
      in if offset = 0 then Inr (date c) else add_days (date c) offset)"

definition getUTCSunrise :: "AstronomicalCalendar \<Rightarrow> jsnum \<Rightarrow> error + jsnum" where
  "getUTCSunrise c zenith =
     try_bind (getAdjustedDate c) (\<lambda>adjustedDate.
       calc_getUTCSunrise (astronomicalCalculator c) adjustedDate (geoLocation c) zenith True)"

definition getUTCSeaLevelSunrise :: "AstronomicalCalendar \<Rightarrow> jsnum \<Rightarrow> error + jsnum" where
  "getUTCSeaLevelSunrise c zenith =
     try_bind (getAdjustedDate c) (\<lambda>adjustedDate.
       calc_getUTCSunrise (astronomicalCalculator c) adjustedDate (geoLocation c) zenith False)"

definition getUTCSunset :: "AstronomicalCalendar \<Rightarrow> jsnum \<Rightarrow> error + jsnum" where
  "getUTCSunset c zenith =
     try_bind (getAdjustedDate c) (\<lambda>adjustedDate.
       calc_getUTCSunset (astronomicalCalculator c) adjustedDate (geoLocation c) zenith True)"

definition getUTCSeaLevelSunset :: "AstronomicalCalendar \<Rightarrow> jsnum \<Rightarrow> error + jsnum" where
  "getUTCSeaLevelSunset c zenith =
     try_bind (getAdjustedDate c) (\<lambda>adjustedDate.
       calc_getUTCSunset (astronomicalCalculator c) adjustedDate (geoLocation c) zenith False)"

text \<open>
  \<^verbatim>\<open>getDateFromTime\<close>: \<^verbatim>\<open>null\<close> for \<^verbatim>\<open>NaN\<close>; otherwise the hours, minutes,
  seconds and milliseconds are cut off one after the other with \<^verbatim>\<open>Math.trunc\<close>, every
  difference and product rounded as a double, the date moves by a day where the test on
  \<^verbatim>\<open>localTimeHours + hours\<close> says so, and the time is attached in UTC and shown in
  the location's zone.
\<close>

definition getDateFromTime :: "AstronomicalCalendar \<Rightarrow> jsnum \<Rightarrow> bool \<Rightarrow> error + ZonedDateTime option" where
  "getDateFromTime c time isSunrise =
     (if isNaN time then Inr None
      else
        try_bind (getAdjustedDate c) (\<lambda>cal.
          (let hours = Math_trunc time;
               calculatedTime1 = js_times (js_minus time hours) (Fin 60);
               minutes = Math_trunc calculatedTime1;
               calculatedTime2 = js_times (js_minus calculatedTime1 minutes) (Fin 60);
               seconds = Math_trunc calculatedTime2;
               calculatedTime3 = js_minus calculatedTime2 seconds;
               localTimeHours = Math_trunc (js_divide (Fin (getLongitude (geoLocation c))) (Fin 15))
           in try_bind
                (if isSunrise \<and> js_greater (js_plus localTimeHours hours) (Fin 18)
                 then add_days cal (- 1)
                 else if \<not> isSunrise \<and> js_less (js_plus localTimeHours hours) (Fin 6)
                 then add_days cal 1
                 else Inr cal) (\<lambda>cal'.
              try_bind
                (new_PlainTime hours minutes seconds (Math_trunc (js_times calculatedTime3 (Fin 1000))))
                (\<lambda>plainTime.
              try_bind (toZonedDateTime_UTC cal' plainTime) (\<lambda>zdt.
                Inr (Some (withTimeZone zdt (getTimeZone (geoLocation c))))))))))"

definition getSunrise :: "AstronomicalCalendar \<Rightarrow> error + ZonedDateTime option" where
  "getSunrise c =
     try_bind (getUTCSunrise c GEOMETRIC_ZENITH) (\<lambda>sunrise.
       if isNaN sunrise then Inr None else getDateFromTime c sunrise True)"

definition getSeaLevelSunrise :: "AstronomicalCalendar \<Rightarrow> error + ZonedDateTime option" where
  "getSeaLevelSunrise c =
     try_bind (getUTCSeaLevelSunrise c GEOMETRIC_ZENITH) (\<lambda>sunrise.
       if isNaN sunrise then Inr None else getDateFromTime c sunrise True)"

definition getSunset :: "AstronomicalCalendar \<Rightarrow> error + ZonedDateTime option" where
  "getSunset c =
     try_bind (getUTCSunset c GEOMETRIC_ZENITH) (\<lambda>sunset.
       if isNaN sunset then Inr None else getDateFromTime c sunset False)"

definition getSeaLevelSunset :: "AstronomicalCalendar \<Rightarrow> error + ZonedDateTime option" where
  "getSeaLevelSunset c =
     try_bind (getUTCSeaLevelSunset c GEOMETRIC_ZENITH) (\<lambda>sunset.
       if isNaN sunset then Inr None else getDateFromTime c sunset False)"

definition getSunriseOffsetByDegrees :: "AstronomicalCalendar \<Rightarrow> jsnum \<Rightarrow> error + ZonedDateTime option" where
  "getSunriseOffsetByDegrees c offsetZenith =
     try_bind (getUTCSunrise c offsetZenith) (\<lambda>dawn.
       if isNaN dawn then Inr None else getDateFromTime c dawn True)"

definition getSunsetOffsetByDegrees :: "AstronomicalCalendar \<Rightarrow> jsnum \<Rightarrow> error + ZonedDateTime option" where
  "getSunsetOffsetByDegrees c offsetZenith =
     try_bind (getUTCSunset c offsetZenith) (\<lambda>sunset.
       if isNaN sunset then Inr None else getDateFromTime c sunset False)"

text \<open>
  \<^verbatim>\<open>getTimeOffset\<close>: \<^verbatim>\<open>null\<close> for a \<^verbatim>\<open>null\<close> time and for an offset
  \<^verbatim>\<open>NaN\<close>, and otherwise the time with the offset, cut to whole milliseconds, added.
\<close>

definition getTimeOffset :: "ZonedDateTime option \<Rightarrow> jsnum \<Rightarrow> error + ZonedDateTime option" where
  "getTimeOffset time offset =
     (case time of
        None \<Rightarrow> Inr None
      | Some t \<Rightarrow>
          if strict_eq offset Long_MIN_VALUE \<or> isNaN offset then Inr None
          else try_bind (add_milliseconds t (Math_trunc offset)) (\<lambda>z. Inr (Some z)))"

text \<open>
  A parameter with a default value: \<open>None\<close> is the argument left out
  (\<^verbatim>\<open>undefined\<close>), for which the default is computed; \<open>Some v\<close> is the argument
  \<open>v\<close>, which may be \<^verbatim>\<open>null\<close>.
\<close>

definition with_default :: "'a option \<Rightarrow> (error + 'a) \<Rightarrow> error + 'a" where
  "with_default arg dflt = (case arg of None \<Rightarrow> dflt | Some v \<Rightarrow> Inr v)"

definition getTemporalHour ::
  "AstronomicalCalendar \<Rightarrow> ZonedDateTime option option \<Rightarrow> ZonedDateTime option option \<Rightarrow> error + jsnum" where
  "getTemporalHour c startOfday endOfDay =
     try_bind (with_default startOfday (getSeaLevelSunrise c)) (\<lambda>s.
     try_bind (with_default endOfDay (getSeaLevelSunset c)) (\<lambda>e.
       (case (s, e) of
          (Some s', Some e') \<Rightarrow>
            (let delta = js_minus (Fin (real_of_int (epochMilliseconds e')))
                                  (Fin (real_of_int (epochMilliseconds s')))
             in Inr (Math_floor (js_divide delta (Fin 12))))
        | _ \<Rightarrow> Inr Long_MIN_VALUE)))"

definition getSunTransit ::
  "AstronomicalCalendar \<Rightarrow> ZonedDateTime option option \<Rightarrow> ZonedDateTime option option
     \<Rightarrow> error + ZonedDateTime option" where
  "getSunTransit c startOfDay endOfDay =
     try_bind (with_default startOfDay (getSeaLevelSunrise c)) (\<lambda>s.
     try_bind (with_default endOfDay (getSeaLevelSunset c)) (\<lambda>e.
     try_bind (getTemporalHour c (Some s) (Some e)) (\<lambda>temporalHour.
       getTimeOffset s (js_times temporalHour (Fin 6)))))"

subsection \<open>The solar dip search\<close>

text \<open>
  The relational operators \<^verbatim>\<open><\<close> and \<^verbatim>\<open>>\<close> convert an operand that is an object to
  a primitive, the left operand first, by its \<^verbatim>\<open>valueOf\<close>; the \<^verbatim>\<open>valueOf\<close> of a
  \<^verbatim>\<open>Temporal.ZonedDateTime\<close> throws a \<^verbatim>\<open>TypeError\<close>. So a comparison whose left
  operand is an instant throws, whatever stands on the right (the \<^verbatim>\<open>!\<close> of
  \<^verbatim>\<open>offsetByTime!\<close> is erased at run time).
\<close>

definition ZonedDateTime_valueOf :: "ZonedDateTime \<Rightarrow> error + jsnum" where
  "ZonedDateTime_valueOf z = Inl TypeError"

definition instant_less :: "ZonedDateTime \<Rightarrow> ZonedDateTime option \<Rightarrow> error + bool" where
  "instant_less a b =
     try_bind (ZonedDateTime_valueOf a) (\<lambda>x.
     try_bind (case b of None \<Rightarrow> Inr (Fin 0) | Some b' \<Rightarrow> ZonedDateTime_valueOf b') (\<lambda>y.
       Inr (js_less x y)))"

definition instant_greater :: "ZonedDateTime \<Rightarrow> ZonedDateTime option \<Rightarrow> error + bool" where
  "instant_greater a b =
     try_bind (ZonedDateTime_valueOf a) (\<lambda>x.
     try_bind (case b of None \<Rightarrow> Inr (Fin 0) | Some b' \<Rightarrow> ZonedDateTime_valueOf b') (\<lambda>y.
       Inr (js_greater x y)))"

text \<open>
  The loop conditions of \<^verbatim>\<open>getSunriseSolarDipFromOffset\<close> and of
  \<^verbatim>\<open>getSunsetSolarDipFromOffset\<close>, with the short-circuit evaluation of
  \<^verbatim>\<open>||\<close> and \<^verbatim>\<open>&&\<close>.
\<close>

definition sunrise_dip_continue ::
  "jsnum \<Rightarrow> ZonedDateTime option \<Rightarrow> ZonedDateTime option \<Rightarrow> error + bool" where
  "sunrise_dip_continue minutes offsetByTime offsetByDegrees =
     (case offsetByDegrees of
        None \<Rightarrow> Inr True
      | Some d \<Rightarrow>
          try_bind (if js_less minutes (Fin 0) then instant_less d offsetByTime else Inr False)
            (\<lambda>before.
               if before then Inr True
               else if js_greater minutes (Fin 0) then instant_greater d offsetByTime
               else Inr False))"

definition sunset_dip_continue ::
  "jsnum \<Rightarrow> ZonedDateTime option \<Rightarrow> ZonedDateTime option \<Rightarrow> error + bool" where
  "sunset_dip_continue minutes offsetByTime offsetByDegrees =
     (case offsetByDegrees of
        None \<Rightarrow> Inr True
      | Some d \<Rightarrow>
          try_bind (if js_greater minutes (Fin 0) then instant_less d offsetByTime else Inr False)
            (\<lambda>before.
               if before then Inr True
               else if js_less minutes (Fin 0) then instant_greater d offsetByTime
               else Inr False))"

text \<open>
  The \<^verbatim>\<open>while\<close> loops. The \<^verbatim>\<open>Big\<close> accumulator \<open>degrees\<close> is an exact decimal,
  here an exact real, and \<^verbatim>\<open>toNumber()\<close> rounds it to a double; the loop has no bound
  on its iterations, so it is a partial function whose value \<open>None\<close> stands for a run
  that never returns.
\<close>

partial_function (option) sunriseSolarDip_loop ::
  "AstronomicalCalendar \<Rightarrow> jsnum \<Rightarrow> ZonedDateTime option \<Rightarrow> real \<Rightarrow> ZonedDateTime option
     \<Rightarrow> (error + jsnum option) option" where
  "sunriseSolarDip_loop c minutes offsetByTime degrees offsetByDegrees =
     (case sunrise_dip_continue minutes offsetByTime offsetByDegrees of
        Inl e \<Rightarrow> Some (Inl e)
      | Inr continue \<Rightarrow>
          if continue
          then (let degrees' = (if js_greater minutes (Fin 0) then degrees + 1 / 10000
                                else degrees - 1 / 10000)
                in case getSunriseOffsetByDegrees c (js_plus GEOMETRIC_ZENITH (round_double degrees')) of
                     Inl e \<Rightarrow> Some (Inl e)
                   | Inr offsetByDegrees' \<Rightarrow>
                       sunriseSolarDip_loop c minutes offsetByTime degrees' offsetByDegrees')
          else Some (Inr (Some (round_double degrees))))"

partial_function (option) sunsetSolarDip_loop ::
  "AstronomicalCalendar \<Rightarrow> jsnum \<Rightarrow> ZonedDateTime option \<Rightarrow> real \<Rightarrow> ZonedDateTime option
     \<Rightarrow> (error + jsnum option) option" where
  "sunsetSolarDip_loop c minutes offsetByTime degrees offsetByDegrees =
     (case sunset_dip_continue minutes offsetByTime offsetByDegrees of
        Inl e \<Rightarrow> Some (Inl e)
      | Inr continue \<Rightarrow>
          if continue
          then (let degrees' = (if js_greater minutes (Fin 0) then degrees + 1 / 1000
                                else degrees - 1 / 1000)
                in case getSunsetOffsetByDegrees c (js_plus GEOMETRIC_ZENITH (round_double degrees')) of
                     Inl e \<Rightarrow> Some (Inl e)
                   | Inr offsetByDegrees' \<Rightarrow>
                       sunsetSolarDip_loop c minutes offsetByTime degrees' offsetByDegrees')
          else Some (Inr (Some (round_double degrees))))"

definition returned :: "(error + 'a) option \<Rightarrow> error + 'a" where
  "returned r = (case r of None \<Rightarrow> Inl NoReturn | Some v \<Rightarrow> v)"

definition getSunriseSolarDipFromOffset :: "AstronomicalCalendar \<Rightarrow> jsnum \<Rightarrow> error + jsnum option" where
  "getSunriseSolarDipFromOffset c minutes =
     (if isNaN minutes then Inr None
      else
        try_bind (getSeaLevelSunrise c) (\<lambda>offsetByDegrees.
        try_bind (getSeaLevelSunrise c) (\<lambda>seaLevelSunrise.
        try_bind (getTimeOffset seaLevelSunrise (js_negate (js_times minutes MINUTE_MILLIS)))
          (\<lambda>offsetByTime.
             returned (sunriseSolarDip_loop c minutes offsetByTime 0 offsetByDegrees)))))"

definition getSunsetSolarDipFromOffset :: "AstronomicalCalendar \<Rightarrow> jsnum \<Rightarrow> error + jsnum option" where
  "getSunsetSolarDipFromOffset c minutes =
     (if isNaN minutes then Inr None
      else
        try_bind (getSeaLevelSunset c) (\<lambda>offsetByDegrees.
        try_bind (getSeaLevelSunset c) (\<lambda>seaLevelSunset.
        try_bind (getTimeOffset seaLevelSunset (js_times minutes MINUTE_MILLIS))
          (\<lambda>offsetByTime.
             returned (sunsetSolarDip_loop c minutes offsetByTime 0 offsetByDegrees)))))"

subsection \<open>setDate\<close>

text \<open>
  The argument of \<^verbatim>\<open>setDate\<close> by its run-time shape: a \<^verbatim>\<open>Temporal.PlainDate\<close>, a
  \<^verbatim>\<open>Date\<close> (by its \<^verbatim>\<open>getTime()\<close>, which is \<^verbatim>\<open>NaN\<close> for an invalid date), a
  string, a number, or anything else (\<^verbatim>\<open>null\<close>, \<^verbatim>\<open>undefined\<close>, another object).
\<close>

datatype date_argument =
    PlainDate_arg PlainDate
  | Date_arg jsnum
  | String_arg string
  | Number_arg jsnum
  | Other_arg

text \<open>
  \<^verbatim>\<open>Temporal.Instant.fromEpochMilliseconds(ms).toZonedDateTimeISO('UTC').toPlainDate()\<close>:
  a \<^verbatim>\<open>RangeError\<close> unless \<open>ms\<close> is a whole number within the range of an instant
  (8.64e15 either way), and otherwise the UTC day the instant lies in.
\<close>

definition plainDate_of_epochMilliseconds :: "jsnum \<Rightarrow> error + PlainDate" where
  "plainDate_of_epochMilliseconds ms =
     (case ms of
        Fin x \<Rightarrow>
          (if x = real_of_int \<lfloor>x\<rfloor> \<and> \<bar>x\<bar> \<le> 8640000000000000
           then Inr (\<lfloor>x\<rfloor> div 86400000)
           else Inl RangeError)
      | _ \<Rightarrow> Inl RangeError)"

text \<open>
  \<^verbatim>\<open>setDate\<close>. The parser \<^verbatim>\<open>Temporal.PlainDate.from\<close> of the Temporal library is a
  parameter: it gives the date a string denotes, or the exception it raises.
\<close>

definition setDate ::
  "(string \<Rightarrow> error + PlainDate) \<Rightarrow> AstronomicalCalendar \<Rightarrow> date_argument \<Rightarrow> error + AstronomicalCalendar" where
  "setDate PlainDate_from c arg =
     (case arg of
        PlainDate_arg d \<Rightarrow> Inr (c\<lparr>date := d\<rparr>)
      | Date_arg time \<Rightarrow>
          try_bind (plainDate_of_epochMilliseconds time) (\<lambda>d. Inr (c\<lparr>date := d\<rparr>))
      | String_arg str \<Rightarrow>
          try_bind (PlainDate_from str) (\<lambda>d. Inr (c\<lparr>date := d\<rparr>))
      | Number_arg n \<Rightarrow>
          try_bind (plainDate_of_epochMilliseconds n) (\<lambda>d. Inr (c\<lparr>date := d\<rparr>))
      | Other_arg \<Rightarrow> Inr c)"

section \<open>Zman and its comparators\<close>

text \<open>
  A JavaScript string is a sequence of 16-bit code units; \<^verbatim>\<open>charCodeAt\<close> reads one
  as a number.
\<close>

type_synonym jsstring = "16 word list"

text \<open>
  \<^verbatim>\<open>StringUtils.compareTo\<close>: the loop over the index \<open>k\<close>, from the index it has
  reached.
\<close>

function compareTo_loop :: "jsstring \<Rightarrow> jsstring \<Rightarrow> nat \<Rightarrow> int" where
  "compareTo_loop string1 string2 k =
     (if k < min (length string1) (length string2)
      then (if string1 ! k \<noteq> string2 ! k
            then uint (string1 ! k) - uint (string2 ! k)
            else compareTo_loop string1 string2 (k + 1))
      else int (length string1) - int (length string2))"
  by pat_completeness auto
termination
  by (relation "measure (\<lambda>(string1, string2, k). min (length string1) (length string2) - k)") auto

declare compareTo_loop.simps [simp del]

definition compareTo :: "jsstring \<Rightarrow> jsstring \<Rightarrow> int" where
  "compareTo string1 string2 = compareTo_loop string1 string2 0"

text \<open>\<^verbatim>\<open>IntegerUtils.compare\<close>.\<close>

definition compare :: "jsnum \<Rightarrow> jsnum \<Rightarrow> int" where
  "compare x y = (if strict_eq x y then 0 else if js_greater x y then 1 else - 1)"

text \<open>
  The fields of a \<^verbatim>\<open>Zman\<close>: the label is a string or \<^verbatim>\<open>null\<close>; the instant, the
  duration, the description and the location may be missing (\<^verbatim>\<open>undefined\<close>).
\<close>

record Zman =
  label :: "jsstring option"
  zman :: "ZonedDateTime option"
  duration :: "jsnum option"
  description :: "jsstring option"
  zman_geoLocation :: "GeoLocation option"

text \<open>
  \<^verbatim>\<open>x || 0\<close> on an optional number and \<^verbatim>\<open>s || ''\<close> on an optional string: the
  fallback stands in for a missing value and for a falsy one (0, \<^verbatim>\<open>NaN\<close>, the empty
  string).
\<close>

definition or_zero :: "jsnum option \<Rightarrow> jsnum" where
  "or_zero x = (case x of None \<Rightarrow> Fin 0 | Some NaN \<Rightarrow> Fin 0 | Some v \<Rightarrow> v)"

definition or_empty :: "jsstring option \<Rightarrow> jsstring" where
  "or_empty s = (case s of Some v \<Rightarrow> v | None \<Rightarrow> [])"

definition compareDateOrder :: "Zman \<Rightarrow> Zman \<Rightarrow> int" where
  "compareDateOrder zman1 zman2 =
     (let firstMillis = or_zero (map_option (\<lambda>z. Fin (real_of_int (epochMilliseconds z))) (zman zman1));
          secondMillis = or_zero (map_option (\<lambda>z. Fin (real_of_int (epochMilliseconds z))) (zman zman2))
      in compare firstMillis secondMillis)"

definition compareNameOrder :: "Zman \<Rightarrow> Zman \<Rightarrow> int" where
  "compareNameOrder zman1 zman2 = compareTo (or_empty (label zman1)) (or_empty (label zman2))"

definition compareDurationOrder :: "Zman \<Rightarrow> Zman \<Rightarrow> int" where
  "compareDurationOrder zman1 zman2 = compare (or_zero (duration zman1)) (or_zero (duration zman2))"

section \<open>SunTimesCalculator\<close>

text \<open>
  The functions of \<^verbatim>\<open>Math\<close> that the calculator calls. The language leaves their
  values to the implementation, up to an approximation, so they are a parameter of the
  calculator; \<open>sane_Math\<close> collects what the theorems below need of them, all of it
  required by the language or true of any implementation: a sine and a cosine of a
  finite number lie between -1 and 1, a tangent is not \<^verbatim>\<open>NaN\<close>, an arc sine and an
  arc cosine are \<^verbatim>\<open>NaN\<close> outside the interval from -1 to 1 and finite and small
  inside it, and an arc tangent of a number is finite and small. \<^verbatim>\<open>Math.PI\<close> is the
  double nearest to \<open>pi\<close>.
\<close>

record Math =
  Math_sin :: "jsnum \<Rightarrow> jsnum"
  Math_cos :: "jsnum \<Rightarrow> jsnum"
  Math_tan :: "jsnum \<Rightarrow> jsnum"
  Math_acos :: "jsnum \<Rightarrow> jsnum"
  Math_asin :: "jsnum \<Rightarrow> jsnum"
  Math_atan :: "jsnum \<Rightarrow> jsnum"

definition Math_PI :: real where
  "Math_PI = nearest_double pi"

definition finite_within :: "real \<Rightarrow> jsnum \<Rightarrow> bool" where
  "finite_within b y \<longleftrightarrow> (\<exists>v. y = Fin v \<and> \<bar>v\<bar> \<le> b)"

definition sane_Math :: "Math \<Rightarrow> bool" where
  "sane_Math M \<longleftrightarrow>
     (\<forall>a. Math_sin M a = NaN \<or> finite_within 1 (Math_sin M a))
     \<and> (\<forall>x. finite_within 1 (Math_sin M (Fin x)))
     \<and> (\<forall>a. Math_cos M a = NaN \<or> finite_within 1 (Math_cos M a))
     \<and> (\<forall>x. finite_within 1 (Math_cos M (Fin x)))
     \<and> (\<forall>x. Math_tan M (Fin x) \<noteq> NaN)
     \<and> (\<forall>a. Math_acos M a = NaN \<or> finite_within 4 (Math_acos M a))
     \<and> (\<forall>x. - 1 \<le> x \<and> x \<le> 1 \<longrightarrow> Math_acos M (Fin x) \<noteq> NaN)
     \<and> (\<forall>x. x < - 1 \<or> 1 < x \<longrightarrow> Math_acos M (Fin x) = NaN)
     \<and> Math_acos M NaN = NaN \<and> Math_acos M PosInf = NaN \<and> Math_acos M NegInf = NaN
     \<and> (\<forall>x. - 1 \<le> x \<and> x \<le> 1 \<longrightarrow> finite_within 2 (Math_asin M (Fin x)))
     \<and> (\<forall>a. a \<noteq> NaN \<longrightarrow> finite_within 2 (Math_atan M a))"

text \<open>
  \<^verbatim>\<open>MathUtils.degreesToRadians\<close>, \<^verbatim>\<open>MathUtils.radiansToDegrees\<close> and the
  trigonometric helpers of the calculator.
\<close>

definition degreesToRadians :: "jsnum \<Rightarrow> jsnum" where
  "degreesToRadians degrees = js_divide (js_times degrees (Fin Math_PI)) (Fin 180)"

definition radiansToDegrees :: "jsnum \<Rightarrow> jsnum" where
  "radiansToDegrees radians = js_divide (js_times radians (Fin 180)) (Fin Math_PI)"

definition DEG_PER_HOUR :: jsnum where
  "DEG_PER_HOUR = js_divide (Fin 360) (Fin 24)"

definition sinDeg :: "Math \<Rightarrow> jsnum \<Rightarrow> jsnum" where
  "sinDeg M deg = Math_sin M (degreesToRadians deg)"

definition acosDeg :: "Math \<Rightarrow> jsnum \<Rightarrow> jsnum" where
  "acosDeg M x = radiansToDegrees (Math_acos M x)"

definition asinDeg :: "Math \<Rightarrow> jsnum \<Rightarrow> jsnum" where
  "asinDeg M x = radiansToDegrees (Math_asin M x)"

definition tanDeg :: "Math \<Rightarrow> jsnum \<Rightarrow> jsnum" where
  "tanDeg M deg = Math_tan M (degreesToRadians deg)"

definition cosDeg :: "Math \<Rightarrow> jsnum \<Rightarrow> jsnum" where
  "cosDeg M deg = Math_cos M (degreesToRadians deg)"

definition getHoursFromMeridian :: "jsnum \<Rightarrow> jsnum" where
  "getHoursFromMeridian longitude = js_divide longitude DEG_PER_HOUR"

definition getApproxTimeDays :: "jsnum \<Rightarrow> jsnum \<Rightarrow> bool \<Rightarrow> jsnum" where
  "getApproxTimeDays dayOfYear' hoursFromMeridian isSunrise =
     (if isSunrise
      then js_plus dayOfYear' (js_divide (js_minus (Fin 6) hoursFromMeridian) (Fin 24))
      else js_plus dayOfYear' (js_divide (js_minus (Fin 18) hoursFromMeridian) (Fin 24)))"

definition getMeanAnomaly :: "jsnum \<Rightarrow> jsnum \<Rightarrow> bool \<Rightarrow> jsnum" where
  "getMeanAnomaly dayOfYear' longitude isSunrise =
     js_minus
       (js_times (Fin (literal (9856 / 10000)))
          (getApproxTimeDays dayOfYear' (getHoursFromMeridian longitude) isSunrise))
       (Fin (literal (3289 / 1000)))"

definition getSunTrueLongitude :: "Math \<Rightarrow> jsnum \<Rightarrow> jsnum" where
  "getSunTrueLongitude M sunMeanAnomaly =
     (let l0 = js_plus
                 (js_plus
                    (js_plus sunMeanAnomaly
                       (js_times (Fin (literal (1916 / 1000))) (sinDeg M sunMeanAnomaly)))
                    (js_times (Fin (literal (20 / 1000)))
                       (sinDeg M (js_times (Fin 2) sunMeanAnomaly))))
                 (Fin (literal (282634 / 1000)));
          l1 = (if js_greater_eq l0 (Fin 360) then js_minus l0 (Fin 360) else l0);
          l2 = (if js_less l1 (Fin 0) then js_plus l1 (Fin 360) else l1)
      in l2)"

definition getSunRightAscensionHours :: "Math \<Rightarrow> jsnum \<Rightarrow> jsnum" where
  "getSunRightAscensionHours M sunTrueLongitude =
     (let a = js_times (Fin (literal (91764 / 100000))) (tanDeg M sunTrueLongitude);
          ra0 = js_times (js_divide (Fin 360) (js_times (Fin 2) (Fin Math_PI))) (Math_atan M a);
          lQuadrant = js_times (Math_floor (js_divide sunTrueLongitude (Fin 90))) (Fin 90);
          raQuadrant = js_times (Math_floor (js_divide ra0 (Fin 90))) (Fin 90);
          ra = js_plus ra0 (js_minus lQuadrant raQuadrant)
      in js_divide ra DEG_PER_HOUR)"

definition getCosLocalHourAngle :: "Math \<Rightarrow> jsnum \<Rightarrow> jsnum \<Rightarrow> jsnum \<Rightarrow> jsnum" where
  "getCosLocalHourAngle M sunTrueLongitude latitude zenith =
     (let sinDec = js_times (Fin (literal (39782 / 100000))) (sinDeg M sunTrueLongitude);
          cosDec = cosDeg M (asinDeg M sinDec)
      in js_divide (js_minus (cosDeg M zenith) (js_times sinDec (sinDeg M latitude)))
                   (js_times cosDec (cosDeg M latitude)))"

definition getLocalMeanTime :: "jsnum \<Rightarrow> jsnum \<Rightarrow> jsnum \<Rightarrow> jsnum" where
  "getLocalMeanTime localHour sunRightAscensionHours approxTimeDays =
     js_minus (js_minus (js_plus localHour sunRightAscensionHours)
                        (js_times (Fin (literal (6571 / 100000))) approxTimeDays))
              (Fin (literal (6622 / 1000)))"

text \<open>
  The two \<^verbatim>\<open>while\<close> loops at the end of \<^verbatim>\<open>getTimeUTC\<close>. On doubles they need
  not end (24 added to a large negative number leaves it as it is), so each is a
  partial function whose value \<open>None\<close> stands for a run that never returns.
\<close>

partial_function (option) add_24_while_negative :: "jsnum \<Rightarrow> jsnum option" where
  "add_24_while_negative processedTime =
     (if js_less processedTime (Fin 0)
      then add_24_while_negative (js_plus processedTime (Fin 24))
      else Some processedTime)"

partial_function (option) subtract_24_while_not_less :: "jsnum \<Rightarrow> jsnum option" where
  "subtract_24_while_not_less processedTime =
     (if js_greater_eq processedTime (Fin 24)
      then subtract_24_while_not_less (js_minus processedTime (Fin 24))
      else Some processedTime)"

text \<open>
  \<^verbatim>\<open>getTimeUTC\<close>, in two parts: \<open>getTimeUTC_processedTime\<close> is the value of
  \<^verbatim>\<open>processedTime\<close> before the two loops (the local mean time less the hours from the
  meridian), and \<open>getTimeUTC\<close> runs the loops on it.
\<close>

definition getTimeUTC_processedTime :: "Math \<Rightarrow> PlainDate \<Rightarrow> jsnum \<Rightarrow> jsnum \<Rightarrow> jsnum \<Rightarrow> bool \<Rightarrow> jsnum" where
  "getTimeUTC_processedTime M date' longitude latitude zenith isSunrise =
     (let dayOfYear' = Fin (real_of_int (dayOfYear date'));
          sunMeanAnomaly = getMeanAnomaly dayOfYear' longitude isSunrise;
          sunTrueLong = getSunTrueLongitude M sunMeanAnomaly;
          sunRightAscensionHours = getSunRightAscensionHours M sunTrueLong;
          cosLocalHourAngle = getCosLocalHourAngle M sunTrueLong latitude zenith;
          localHourAngle = (if isSunrise then js_minus (Fin 360) (acosDeg M cosLocalHourAngle)
                            else acosDeg M cosLocalHourAngle);
          localHour = js_divide localHourAngle DEG_PER_HOUR;
          localMeanTime = getLocalMeanTime localHour sunRightAscensionHours
            (getApproxTimeDays dayOfYear' (getHoursFromMeridian longitude) isSunrise)
      in js_minus localMeanTime (getHoursFromMeridian longitude))"

definition getTimeUTC :: "Math \<Rightarrow> PlainDate \<Rightarrow> jsnum \<Rightarrow> jsnum \<Rightarrow> jsnum \<Rightarrow> bool \<Rightarrow> jsnum option" where
  "getTimeUTC M date' longitude latitude zenith isSunrise =
     Option.bind
       (add_24_while_negative (getTimeUTC_processedTime M date' longitude latitude zenith isSunrise))
       subtract_24_while_not_less"

text \<open>
  \<^verbatim>\<open>getUTCSunrise\<close> and \<^verbatim>\<open>getUTCSunset\<close> of \<^verbatim>\<open>SunTimesCalculator\<close>. The method
  \<^verbatim>\<open>adjustZenith\<close> is inherited from \<^verbatim>\<open>AstronomicalCalculator\<close>, which is not
  under src, and is a parameter here, from the zenith and the elevation to the adjusted
  zenith.
\<close>

definition SunTimesCalculator_getUTCSunrise ::
  "Math \<Rightarrow> (jsnum \<Rightarrow> jsnum \<Rightarrow> jsnum) \<Rightarrow> PlainDate \<Rightarrow> GeoLocation \<Rightarrow> jsnum \<Rightarrow> bool \<Rightarrow> error + jsnum" where
  "SunTimesCalculator_getUTCSunrise M adjustZenith date' geoLocation' zenith adjustForElevation =
     (let elevation = (if adjustForElevation then Fin (getElevation geoLocation') else Fin 0);
          adjustedZenith = adjustZenith zenith elevation;
          doubleTime = getTimeUTC M date' (Fin (getLongitude geoLocation'))
                         (Fin (getLatitude geoLocation')) adjustedZenith True
      in case doubleTime of None \<Rightarrow> Inl NoReturn | Some t \<Rightarrow> Inr t)"

definition SunTimesCalculator_getUTCSunset ::
  "Math \<Rightarrow> (jsnum \<Rightarrow> jsnum \<Rightarrow> jsnum) \<Rightarrow> PlainDate \<Rightarrow> GeoLocation \<Rightarrow> jsnum \<Rightarrow> bool \<Rightarrow> error + jsnum" where
  "SunTimesCalculator_getUTCSunset M adjustZenith date' geoLocation' zenith adjustForElevation =
     (let elevation = (if adjustForElevation then Fin (getElevation geoLocation') else Fin 0);
          adjustedZenith = adjustZenith zenith elevation;
          doubleTime = getTimeUTC M date' (Fin (getLongitude geoLocation'))
                         (Fin (getLatitude geoLocation')) adjustedZenith False
      in case doubleTime of None \<Rightarrow> Inl NoReturn | Some t \<Rightarrow> Inr t)"

definition SunTimesCalculator :: "Math \<Rightarrow> (jsnum \<Rightarrow> jsnum \<Rightarrow> jsnum) \<Rightarrow> AstronomicalCalculator" where
  "SunTimesCalculator M adjustZenith =
     \<lparr>calc_getUTCSunrise = SunTimesCalculator_getUTCSunrise M adjustZenith,
      calc_getUTCSunset = SunTimesCalculator_getUTCSunset M adjustZenith\<rparr>"

section \<open>Statements read from the specification\<close>

text \<open>
  Following the specification's words for \<^verbatim>\<open>dateFromTime\<close>: the day-boundary
  correction with \<open>localOffsetHours = floor(longitude / 15)\<close>, everything else as in
  \<open>getDateFromTime\<close>.
\<close>

definition dateFromTime_floor_longitude ::
  "AstronomicalCalendar \<Rightarrow> jsnum \<Rightarrow> bool \<Rightarrow> error + ZonedDateTime option" where
  "dateFromTime_floor_longitude c time isSunrise =
     (if isNaN time then Inr None
      else
        try_bind (getAdjustedDate c) (\<lambda>cal.
          (let hours = Math_trunc time;
               calculatedTime1 = js_times (js_minus time hours) (Fin 60);
               minutes = Math_trunc calculatedTime1;
               calculatedTime2 = js_times (js_minus calculatedTime1 minutes) (Fin 60);
               seconds = Math_trunc calculatedTime2;
               calculatedTime3 = js_minus calculatedTime2 seconds;
               localOffsetHours = Math_floor (js_divide (Fin (getLongitude (geoLocation c))) (Fin 15))
           in try_bind
                (if isSunrise \<and> js_greater (js_plus localOffsetHours hours) (Fin 18)
                 then add_days cal (- 1)
                 else if \<not> isSunrise \<and> js_less (js_plus localOffsetHours hours) (Fin 6)
                 then add_days cal 1
                 else Inr cal) (\<lambda>cal'.
              try_bind
                (new_PlainTime hours minutes seconds (Math_trunc (js_times calculatedTime3 (Fin 1000))))
                (\<lambda>plainTime.
              try_bind (toZonedDateTime_UTC cal' plainTime) (\<lambda>zdt.
                Inr (Some (withTimeZone zdt (getTimeZone (geoLocation c))))))))))"

text \<open>
  Following the specification's words for the temporal hour: the whole number of
  milliseconds \<open>(b - a) / 12\<close>, computed on integers.
\<close>

definition temporalHour_integer :: "ZonedDateTime \<Rightarrow> ZonedDateTime \<Rightarrow> int" where
  "temporalHour_integer a b = (epochMilliseconds b - epochMilliseconds a) div 12"

text \<open>
  Following the specification's words for the sun transit: \<open>m\<close> is the exact midpoint
  of \<open>a\<close> and \<open>b\<close>.
\<close>

definition is_exact_midpoint :: "ZonedDateTime \<Rightarrow> ZonedDateTime \<Rightarrow> ZonedDateTime \<Rightarrow> bool" where
  "is_exact_midpoint m a b = (2 * epochNanoseconds m = epochNanoseconds a + epochNanoseconds b)"

text \<open>
  Following the specification's words for the comparators of \<^verbatim>\<open>Zman\<close> (total-order
  comparators under which a collection remains sortable): a comparison and its converse
  have opposite signs, and "not after" is transitive.
\<close>

definition sortable_comparator :: "('a \<Rightarrow> 'a \<Rightarrow> int) \<Rightarrow> bool" where
  "sortable_comparator cmp =
     ((\<forall>a b. sgn (cmp a b) = - sgn (cmp b a))
      \<and> (\<forall>a b c. cmp a b \<le> 0 \<and> cmp b c \<le> 0 \<longrightarrow> cmp a c \<le> 0))"

text \<open>
  For the statements about the solar dip search: the value of the accumulator after
  \<open>k\<close> steps of the given increment (added when \<open>minutes\<close> is positive, subtracted
  otherwise), and the candidate instant the search looks at after \<open>k\<close> steps (the
  sea-level sunrise or sunset before the first step, and then
  \<open>offsetByDegrees(90 + degrees)\<close>).
\<close>

definition dip_degrees :: "real \<Rightarrow> jsnum \<Rightarrow> nat \<Rightarrow> real" where
  "dip_degrees incrementor minutes k =
     (if js_greater minutes (Fin 0) then real k * incrementor else - (real k * incrementor))"

definition sunrise_dip_candidate :: "AstronomicalCalendar \<Rightarrow> jsnum \<Rightarrow> nat \<Rightarrow> error + ZonedDateTime option" where
  "sunrise_dip_candidate c minutes k =
     (if k = 0 then getSeaLevelSunrise c
      else getSunriseOffsetByDegrees c
             (js_plus GEOMETRIC_ZENITH (round_double (dip_degrees (1 / 10000) minutes k))))"

definition sunset_dip_candidate :: "AstronomicalCalendar \<Rightarrow> jsnum \<Rightarrow> nat \<Rightarrow> error + ZonedDateTime option" where
  "sunset_dip_candidate c minutes k =
     (if k = 0 then getSeaLevelSunset c
      else getSunsetOffsetByDegrees c
             (js_plus GEOMETRIC_ZENITH (round_double (dip_degrees (1 / 1000) minutes k))))"

section \<open>Concrete calendars\<close>

text \<open>
  A location near Denver (the place of tests/AstronomicalCalendar.test.ts, with
  coordinates that are short binary fractions) on 5 June 2020, day 18418 since the
  epoch, and a calculator that returns fractional hours close to those behind the times
  that test expects: 11:24:22.500 and 11:32:20.625 UTC for the sunrise with and without
  elevation, 02:32:55.781 and 02:25:04.687 UTC for the sunset.
\<close>

definition denver :: GeoLocation where
  "denver = \<lparr>getLatitude = 159 / 4, getLongitude = - 105, getElevation = 1636,
              getAntimeridianAdjustment = 0, getTimeZone = ''America/Denver''\<rparr>"

definition fixture_calculator :: AstronomicalCalculator where
  "fixture_calculator =
     \<lparr>calc_getUTCSunrise = (\<lambda>d g zenith adjustForElevation.
          if adjustForElevation then Inr (Fin (365 / 32)) else Inr (Fin (1477 / 128))),
      calc_getUTCSunset = (\<lambda>d g zenith adjustForElevation.
          if adjustForElevation then Inr (Fin (1305 / 512)) else Inr (Fin (619 / 256)))\<rparr>"

definition denver_calendar :: AstronomicalCalendar where
  "denver_calendar =
     \<lparr>date = 18418, geoLocation = denver, astronomicalCalculator = fixture_calculator\<rparr>"

text \<open>
  The sea-level sunrise and sunset that tests/AstronomicalCalendar.test.ts expects for
  Denver on that day: 2020-06-05T05:32:26.007-06:00 and 2020-06-05T20:25:01.588-06:00.
\<close>

definition fixture_sunrise :: ZonedDateTime where
  "fixture_sunrise =
     \<lparr>epochNanoseconds = 1591356746007000000, timeZoneId = ''America/Denver''\<rparr>"

definition fixture_sunset :: ZonedDateTime where
  "fixture_sunset =
     \<lparr>epochNanoseconds = 1591410301588000000, timeZoneId = ''America/Denver''\<rparr>"

text \<open>
  A calendar whose calculator finds no sunrise and no sunset at any zenith, as for a day
  on which the sun stays on one side of every horizon asked for.
\<close>

definition polar_calculator :: AstronomicalCalculator where
  "polar_calculator =
     \<lparr>calc_getUTCSunrise = (\<lambda>d g zenith adjustForElevation. Inr NaN),
      calc_getUTCSunset = (\<lambda>d g zenith adjustForElevation. Inr NaN)\<rparr>"

definition polar_calendar :: AstronomicalCalendar where
  "polar_calendar =
     \<lparr>date = 18418, geoLocation = denver, astronomicalCalculator = polar_calculator\<rparr>"

text \<open>A calendar for a location seven and a half degrees west of Greenwich.\<close>

definition west_calendar :: AstronomicalCalendar where
  "west_calendar =
     \<lparr>date = 18418,
      geoLocation = \<lparr>getLatitude = 53, getLongitude = - 15 / 2, getElevation = 0,
                      getAntimeridianAdjustment = 0, getTimeZone = ''Europe/Dublin''\<rparr>,
      astronomicalCalculator = polar_calculator\<rparr>"

text \<open>
  Two \<^verbatim>\<open>Zman\<close> records as the two-argument constructor builds them: an instant with
  the label "Sun", and a duration without a label.
\<close>

definition sunrise_zman :: Zman where
  "sunrise_zman =
     \<lparr>label = Some [0x53, 0x75, 0x6E], zman = Some fixture_sunrise, duration = None,
      description = None, zman_geoLocation = None\<rparr>"

definition shaah_zman :: Zman where
  "shaah_zman =
     \<lparr>label = None, zman = None, duration = Some (Fin 4462965),
      description = None, zman_geoLocation = None\<rparr>"

text \<open>
  The first instant that Temporal represents, 8.64e15 milliseconds before the epoch, and
  the instant one millisecond before the last one.
\<close>

definition first_instant :: ZonedDateTime where
  "first_instant = \<lparr>epochNanoseconds = - 8640000000000000000000, timeZoneId = ''UTC''\<rparr>"

definition late_instant :: ZonedDateTime where
  "late_instant = \<lparr>epochNanoseconds = 8639999999999999000000, timeZoneId = ''UTC''\<rparr>"

section \<open>Doubles\<close>

lemma is_doubleI:
  "\<bar>m\<bar> < 2 ^ 53 \<Longrightarrow> - 1074 \<le> e \<Longrightarrow> e \<le> 971 \<Longrightarrow> is_double (real_of_int m * 2 powi e)"
  unfolding is_double_def by blast

lemma is_double_0: "is_double 0"
  using is_doubleI [of 0 0] by simp

lemma is_double_minus: "is_double x \<Longrightarrow> is_double (- x)"
proof -
  assume "is_double x"
  then obtain m e where "x = real_of_int m * 2 powi e" "\<bar>m\<bar> < 2 ^ 53" "- 1074 \<le> e" "e \<le> 971"
    unfolding is_double_def by blast
  then show ?thesis using is_doubleI [of "- m" e] by simp
qed

lemma is_double_int:
  assumes "\<bar>k\<bar> \<le> 2 ^ 53"
  shows "is_double (real_of_int k)"
proof (cases "\<bar>k\<bar> < 2 ^ 53")
  case True
  then show ?thesis using is_doubleI [of k 0] by simp
next
  case False
  with assms have "k = 2 ^ 53 \<or> k = - (2 ^ 53)" by linarith
  then show ?thesis
  proof
    assume "k = 2 ^ 53"
    then show ?thesis using is_doubleI [of "2 ^ 52" 1] by simp
  next
    assume "k = - (2 ^ 53)"
    then show ?thesis using is_doubleI [of "- (2 ^ 52)" 1] by simp
  qed
qed

lemma is_double_numeral [simp]: "numeral n \<le> (9007199254740992::int) \<Longrightarrow> is_double (numeral n)"
  using is_double_int [of "numeral n"] by simp

lemma is_double_neg_numeral [simp]:
  "numeral n \<le> (9007199254740992::int) \<Longrightarrow> is_double (- numeral n)"
  using is_double_int [of "- numeral n"] by simp

lemma is_double_1 [simp]: "is_double 1"
  using is_double_int [of 1] by simp

lemma is_double_0' [simp]: "is_double 0"
  by (rule is_double_0)

lemma is_double_abs_le: 
  assumes "is_double x"
  shows "\<bar>x\<bar> \<le> max_double"
proof -
  from assms obtain m e where x: "x = real_of_int m * 2 powi e" and m: "\<bar>m\<bar> < 2 ^ 53"
    and e: "- 1074 \<le> e" "e \<le> 971"
    unfolding is_double_def by blast
  have "\<bar>m\<bar> \<le> 2 ^ 53 - 1" using m by simp
  then have "real_of_int \<bar>m\<bar> \<le> real_of_int (2 ^ 53 - 1)" by (simp only: of_int_le_iff)
  then have m': "\<bar>real_of_int m\<bar> \<le> 2 ^ 53 - 1" by simp
  have p: "(2::real) powi e \<le> 2 powi 971"
    by (rule power_int_increasing) (use e in simp_all)
  have "\<bar>x\<bar> = \<bar>real_of_int m\<bar> * 2 powi e"
    unfolding x by (simp add: abs_mult)
  also have "\<dots> \<le> (2 ^ 53 - 1) * 2 powi 971"
    by (rule mult_mono) (use m' p in simp_all)
  finally show ?thesis unfolding max_double_def .
qed

lemma is_double_max: "is_double max_double"
  unfolding max_double_def using is_doubleI [of "2 ^ 53 - 1" 971] by simp

lemma max_double_pos: "0 < max_double"
  unfolding max_double_def by (simp add: zero_less_power_int)

lemma finite_doubles: "finite {d. is_double d}"
proof -
  have "{d. is_double d}
      \<subseteq> (\<lambda>(m, e). real_of_int m * 2 powi e) ` ({- (2 ^ 53) .. 2 ^ 53} \<times> {- 1074 .. 971})"
  proof
    fix d assume "d \<in> {d. is_double d}"
    then obtain m e where x: "d = real_of_int m * 2 powi e" and m: "\<bar>m\<bar> < 2 ^ 53"
      and e: "- 1074 \<le> e" "e \<le> 971"
      unfolding is_double_def by blast
    have "(m, e) \<in> {- (2 ^ 53) .. 2 ^ 53} \<times> {- 1074 .. 971}" using m e by auto
    then show "d \<in> (\<lambda>(m, e). real_of_int m * 2 powi e) ` ({- (2 ^ 53) .. 2 ^ 53} \<times> {- 1074 .. 971})"
      using x by (intro image_eqI [where x = "(m, e)"]) simp_all
  qed
  moreover have "finite ((\<lambda>(m, e). real_of_int m * 2 powi e)
      ` ({- (2 ^ 53) .. 2 ^ 53 :: int} \<times> {- 1074 .. 971 :: int}))"
    by (intro finite_imageI finite_cartesian_product) simp_all
  ultimately show ?thesis by (rule finite_subset)
qed

lemma round_down_props:
  assumes "- max_double \<le> x"
  shows "is_double (round_down x)" and "round_down x \<le> x"
    and "\<And>d. is_double d \<Longrightarrow> d \<le> x \<Longrightarrow> d \<le> round_down x"
proof -
  define S where "S = {d. is_double d \<and> d \<le> x}"
  have f: "finite S" unfolding S_def by (rule finite_subset [OF _ finite_doubles]) blast
  have "- max_double \<in> S" unfolding S_def using assms is_double_minus [OF is_double_max] by simp
  then have ne: "S \<noteq> {}" by blast
  have "Max S \<in> S" by (rule Max_in [OF f ne])
  then show "is_double (round_down x)" and "round_down x \<le> x"
    unfolding round_down_def S_def by simp_all
  show "d \<le> round_down x" if "is_double d" "d \<le> x" for d
    unfolding round_down_def using Max_ge [OF f, of d] that by (simp add: S_def)
qed

lemma round_up_props:
  assumes "x \<le> max_double"
  shows "is_double (round_up x)" and "x \<le> round_up x"
    and "\<And>d. is_double d \<Longrightarrow> x \<le> d \<Longrightarrow> round_up x \<le> d"
proof -
  define S where "S = {d. is_double d \<and> x \<le> d}"
  have f: "finite S" unfolding S_def by (rule finite_subset [OF _ finite_doubles]) blast
  have "max_double \<in> S" unfolding S_def using assms is_double_max by simp
  then have ne: "S \<noteq> {}" by blast
  have "Min S \<in> S" by (rule Min_in [OF f ne])
  then show "is_double (round_up x)" and "x \<le> round_up x"
    unfolding round_up_def S_def by simp_all
  show "round_up x \<le> d" if "is_double d" "x \<le> d" for d
    unfolding round_up_def using Min_le [OF f, of d] that by (simp add: S_def)
qed

lemma nearest_double_cases:
  "nearest_double x = round_down x \<or> nearest_double x = round_up x"
  unfolding nearest_double_def Let_def by simp

lemma nearest_double_props:
  assumes "\<bar>x\<bar> \<le> max_double"
  shows "is_double (nearest_double x)"
    and "\<And>lo. is_double lo \<Longrightarrow> lo \<le> x \<Longrightarrow> lo \<le> nearest_double x"
    and "\<And>hi. is_double hi \<Longrightarrow> x \<le> hi \<Longrightarrow> nearest_double x \<le> hi"
proof -
  have a: "- max_double \<le> x" "x \<le> max_double" using assms by simp_all
  note d = round_down_props [OF a(1)] and u = round_up_props [OF a(2)]
  show "is_double (nearest_double x)"
    using nearest_double_cases [of x] d(1) u(1) by auto
  show "lo \<le> nearest_double x" if "is_double lo" "lo \<le> x" for lo
    using nearest_double_cases [of x] d(3) [OF that] u(2) that(2) by auto
  show "nearest_double x \<le> hi" if "is_double hi" "x \<le> hi" for hi
    using nearest_double_cases [of x] u(3) [OF that] d(2) that(2) by auto
qed

lemma nearest_double_exact:
  assumes "is_double x"
  shows "nearest_double x = x"
proof -
  note n = nearest_double_props [OF is_double_abs_le [OF assms]]
  have "x \<le> nearest_double x" by (rule n(2) [OF assms]) simp
  moreover have "nearest_double x \<le> x" by (rule n(3) [OF assms]) simp
  ultimately show ?thesis by simp
qed

lemma round_double_nearest: "\<bar>x\<bar> \<le> max_double \<Longrightarrow> round_double x = Fin (nearest_double x)"
proof -
  assume a: "\<bar>x\<bar> \<le> max_double"
  have "(0::real) < 2 powi 970" by (simp add: zero_less_power_int)
  with a have "\<not> max_double + 2 powi 970 \<le> \<bar>x\<bar>" by linarith
  then show ?thesis unfolding round_double_def using a by auto
qed

lemma round_double_exact: "is_double x \<Longrightarrow> round_double x = Fin x"
  by (simp add: round_double_nearest is_double_abs_le nearest_double_exact)

lemma round_double_between:
  assumes "is_double lo" "is_double hi" "lo \<le> x" "x \<le> hi"
  shows "\<exists>r. round_double x = Fin r \<and> is_double r \<and> lo \<le> r \<and> r \<le> hi"
proof -
  have "\<bar>x\<bar> \<le> max_double"
    using is_double_abs_le [OF assms(1)] is_double_abs_le [OF assms(2)] assms(3,4) by linarith
  then show ?thesis
    using round_double_nearest [of x] nearest_double_props [of x] assms by blast
qed

lemma round_double_closer:
  assumes p: "is_double p" and c: "is_double c" and py: "p \<le> y" and near: "y - p < c - y"
  shows "\<exists>r. round_double y = Fin r \<and> is_double r \<and> p \<le> r \<and> r < c"
proof -
  have yc: "y < c" using py near by linarith
  have ab: "\<bar>y\<bar> \<le> max_double"
    using is_double_abs_le [OF p] is_double_abs_le [OF c] py yc by linarith
  then have a: "- max_double \<le> y" "y \<le> max_double" by simp_all
  note d = round_down_props [OF a(1)] and u = round_up_props [OF a(2)]
  note n = nearest_double_props [OF ab]
  have pd: "p \<le> round_down y" by (rule d(3) [OF p py])
  have uc: "round_up y \<le> c" by (rule u(3) [OF c]) (use yc in simp)
  have "nearest_double y < c"
  proof (cases "round_up y < c")
    case True
    then show ?thesis using nearest_double_cases [of y] d(2) u(2) by auto
  next
    case False
    with uc have e: "round_up y = c" by simp
    have "y - round_down y < round_up y - y" using pd near e by linarith
    then have "nearest_double y = round_down y" unfolding nearest_double_def Let_def by simp
    then show ?thesis using d(2) yc by simp
  qed
  then show ?thesis
    using round_double_nearest [OF ab] n(1) n(2) [OF p py] by blast
qed


lemma real_of_int_abs_less:
  assumes "\<bar>m\<bar> < 2 ^ 53"
  shows "\<bar>real_of_int m\<bar> < 2 ^ 53"
proof -
  from assms have "real_of_int \<bar>m\<bar> < real_of_int (2 ^ 53)" by (simp only: of_int_less_iff)
  then show ?thesis by simp
qed

lemma is_double_dyadic:
  assumes "\<bar>m\<bar> < 2 ^ 53" "k \<le> 1074"
  shows "is_double (real_of_int m / 2 ^ k)"
proof -
  have "real_of_int m / 2 ^ k = real_of_int m * 2 powi (- int k)"
    by (simp add: power_int_minus divide_inverse)
  moreover have "is_double (real_of_int m * 2 powi (- int k))"
    by (rule is_doubleI) (use assms in simp_all)
  ultimately show ?thesis by simp
qed

lemma is_double_cases:
  assumes "is_double x"
  obtains (whole) n where "x = real_of_int n"
  | (fraction) m k where "x = real_of_int m / 2 ^ k" "\<bar>m\<bar> < 2 ^ 53" "0 < k" "k \<le> 1074"
proof -
  from assms obtain m e where x: "x = real_of_int m * 2 powi e" and m: "\<bar>m\<bar> < 2 ^ 53"
    and e: "- 1074 \<le> e" "e \<le> 971"
    unfolding is_double_def by blast
  show ?thesis
  proof (cases "0 \<le> e")
    case True
    then have "(2::real) powi e = 2 ^ nat e" by (simp add: power_int_def)
    then have "x = real_of_int (m * 2 ^ nat e)" unfolding x by simp
    then show ?thesis by (rule whole)
  next
    case False
    then have "(2::real) powi e = inverse (2 ^ nat (- e))"
      by (simp add: power_int_def inverse_eq_divide power_divide)
    then have "x = real_of_int m / 2 ^ nat (- e)" unfolding x by (simp add: divide_inverse)
    then show ?thesis by (rule fraction) (use m e False in simp_all)
  qed
qed

lemma is_double_floor:
  assumes "is_double x"
  shows "is_double (real_of_int \<lfloor>x\<rfloor>)"
  using assms
proof (cases rule: is_double_cases)
  case (whole n)
  then show ?thesis using assms by simp
next
  case (fraction m k)
  have "\<bar>x\<bar> \<le> \<bar>real_of_int m\<bar>"
    unfolding fraction(1) by (simp add: field_simps mult_le_cancel_left1)
  also have "\<dots> < 2 ^ 53" by (rule real_of_int_abs_less [OF fraction(2)])
  finally have "- (2 ^ 53) < x" "x < 2 ^ 53" by linarith+
  then have lo: "- 9007199254740992 \<le> \<lfloor>x\<rfloor>" and hi: "\<lfloor>x\<rfloor> \<le> 9007199254740992"
    by (simp_all add: le_floor_iff floor_le_iff)
  have "\<bar>\<lfloor>x\<rfloor>\<bar> \<le> 9007199254740992" using lo hi by linarith
  then have "\<bar>\<lfloor>x\<rfloor>\<bar> \<le> 2 ^ 53" by simp
  then show ?thesis by (rule is_double_int)
qed

lemma is_double_frac:
  assumes "is_double x" "0 \<le> x"
  shows "is_double (x - real_of_int \<lfloor>x\<rfloor>)"
  using assms(1)
proof (cases rule: is_double_cases)
  case (whole n)
  then show ?thesis by simp
next
  case (fraction m k)
  have "0 \<le> x * 2 ^ k" using assms(2) by simp
  also have "x * 2 ^ k = real_of_int m" unfolding fraction(1) by simp
  finally have m0: "0 \<le> m" by simp
  define q r where "q = m div 2 ^ k" and "r = m mod 2 ^ k"
  have fl: "\<lfloor>x\<rfloor> = q"
    unfolding fraction(1) q_def
    using floor_divide_of_int_eq [of m "2 ^ k", where ?'a = real] by simp
  have "m = q * 2 ^ k + r" by (simp only: q_def r_def div_mult_mod_eq)
  then have "real_of_int m = real_of_int (q * 2 ^ k + r)" by simp
  then have mq: "real_of_int m = real_of_int q * 2 ^ k + real_of_int r" by simp
  have "x - real_of_int q = real_of_int r / 2 ^ k"
    unfolding fraction(1) mq by (simp add: field_simps)
  then have "x - real_of_int \<lfloor>x\<rfloor> = real_of_int (m mod 2 ^ k) / 2 ^ k"
    unfolding fl r_def .
  moreover have "is_double (real_of_int (m mod 2 ^ k) / 2 ^ k)"
  proof (rule is_double_dyadic)
    have "0 \<le> m mod 2 ^ k" by simp
    moreover have "m mod 2 ^ k \<le> m" using m0 by (simp add: zmod_le_nonneg_dividend)
    ultimately show "\<bar>m mod 2 ^ k\<bar> < 2 ^ 53" using fraction(2) by linarith
  qed (rule fraction(4))
  ultimately show ?thesis by simp
qed

lemma is_double_less_1:
  assumes "is_double x" "x < 1"
  shows "x \<le> 1 - 1 / 2 ^ 53"
  using assms(1)
proof (cases rule: is_double_cases)
  case (whole n)
  then have "n \<le> 0" using assms(2) by simp
  then have "x \<le> 0" unfolding whole by simp
  then show ?thesis by simp
next
  case (fraction m k)
  show ?thesis
  proof (cases "k \<le> 53")
    case True
    define j where "j = 53 - k"
    have k: "(2::real) ^ 53 = 2 ^ k * 2 ^ j"
      unfolding j_def using True by (simp flip: power_add)
    have "x * 2 ^ 53 = real_of_int (m * 2 ^ j)" unfolding fraction(1) k by simp
    moreover have "x * 2 ^ 53 < 2 ^ 53" using assms(2) by simp
    ultimately have "real_of_int (m * 2 ^ j) < real_of_int (2 ^ 53)" by simp
    then have "m * 2 ^ j < 2 ^ 53" by (simp only: of_int_less_iff)
    then have "m * 2 ^ j \<le> 2 ^ 53 - 1" by simp
    then have "real_of_int (m * 2 ^ j) \<le> real_of_int (2 ^ 53 - 1)" by (simp only: of_int_le_iff)
    then have "x * 2 ^ 53 \<le> 2 ^ 53 - 1" using \<open>x * 2 ^ 53 = real_of_int (m * 2 ^ j)\<close> by simp
    then show ?thesis by (simp add: field_simps)
  next
    case False
    then have "54 \<le> k" by simp
    then have "(2::real) ^ 54 \<le> 2 ^ k" by (intro power_increasing) simp_all
    moreover have "real_of_int m < 2 ^ 53" using real_of_int_abs_less [OF fraction(2)] by linarith
    ultimately have "real_of_int m * 2 < 2 ^ k" by simp
    then have "x < 1 / 2" unfolding fraction(1) by (simp add: field_simps)
    then show ?thesis by simp
  qed
qed

section \<open>Evaluation rules\<close>

lemma is_double_minus_iff [simp]: "is_double (- x) \<longleftrightarrow> is_double x"
  using is_double_minus [of x] is_double_minus [of "- x"] by auto

lemma is_double_dyadic_numeral:
  "numeral a < (9007199254740992::int) \<Longrightarrow> is_double (numeral a / 2 ^ k)" if "k \<le> 1074"
  using is_double_dyadic [of "numeral a" k] that by simp

lemmas is_double_fractions [simp] =
  is_double_dyadic_numeral [of 1, simplified] is_double_dyadic_numeral [of 2, simplified]
  is_double_dyadic_numeral [of 3, simplified] is_double_dyadic_numeral [of 4, simplified]
  is_double_dyadic_numeral [of 5, simplified] is_double_dyadic_numeral [of 6, simplified]
  is_double_dyadic_numeral [of 7, simplified] is_double_dyadic_numeral [of 8, simplified]
  is_double_dyadic_numeral [of 9, simplified] is_double_dyadic_numeral [of 10, simplified]

lemma is_double_dyadic_unit: "is_double (1 / 2 ^ k)" if "k \<le> 1074"
  using is_double_dyadic [of 1 k] that by simp

lemmas is_double_unit_fractions [simp] =
  is_double_dyadic_unit [of 1, simplified] is_double_dyadic_unit [of 2, simplified]
  is_double_dyadic_unit [of 3, simplified] is_double_dyadic_unit [of 4, simplified]
  is_double_dyadic_unit [of 5, simplified] is_double_dyadic_unit [of 6, simplified]
  is_double_dyadic_unit [of 7, simplified] is_double_dyadic_unit [of 8, simplified]
  is_double_dyadic_unit [of 9, simplified] is_double_dyadic_unit [of 10, simplified]

lemma truncation_neg_half [simp]: "truncation (- (1 / 2)) = 0"
  by (simp add: truncation_def ceiling_def)

lemma truncation_of_int [simp]: "truncation (real_of_int k) = k"
  by (simp add: truncation_def)

lemmas number_eval =
  round_double_exact js_minus_def js_greater_def js_greater_eq_def truncation_def
  infinity_of_sign_def

lemmas calendar_eval =
  getSunrise_def getSeaLevelSunrise_def getSunset_def getSeaLevelSunset_def
  getSunriseOffsetByDegrees_def getSunsetOffsetByDegrees_def
  getUTCSunrise_def getUTCSeaLevelSunrise_def getUTCSunset_def getUTCSeaLevelSunset_def
  getDateFromTime_def new_PlainTime_def getAdjustedDate_def GEOMETRIC_ZENITH_def
  toZonedDateTime_UTC_def withTimeZone_def add_days_def add_milliseconds_def
  valid_PlainDate_def valid_instant_def
  getTimeOffset_def getTemporalHour_def getSunTransit_def try_bind_def with_default_def
  Long_MIN_VALUE_def epochMilliseconds_def

lemmas fixture_eval =
  denver_def fixture_calculator_def polar_calculator_def denver_calendar_def polar_calendar_def
  west_calendar_def fixture_sunrise_def fixture_sunset_def

lemma fixture_getSunrise:
  "getSunrise denver_calendar
     = Inr (Some \<lparr>epochNanoseconds = 1591356262500000000, timeZoneId = ''America/Denver''\<rparr>)"
  by (simp add: calendar_eval fixture_eval number_eval)

lemma fixture_getSeaLevelSunrise:
  "getSeaLevelSunrise denver_calendar
     = Inr (Some \<lparr>epochNanoseconds = 1591356740625000000, timeZoneId = ''America/Denver''\<rparr>)"
  by (simp add: calendar_eval fixture_eval number_eval)

lemma fixture_getSunset:
  "getSunset denver_calendar
     = Inr (Some \<lparr>epochNanoseconds = 1591410775781000000, timeZoneId = ''America/Denver''\<rparr>)"
  by (simp add: calendar_eval fixture_eval number_eval)

lemma fixture_getSeaLevelSunset:
  "getSeaLevelSunset denver_calendar
     = Inr (Some \<lparr>epochNanoseconds = 1591410304687000000, timeZoneId = ''America/Denver''\<rparr>)"
  by (simp add: calendar_eval fixture_eval number_eval)

lemma polar_getSunrise:
  "getSunrise polar_calendar = Inr None" "getSeaLevelSunrise polar_calendar = Inr None"
  "getSunset polar_calendar = Inr None" "getSeaLevelSunset polar_calendar = Inr None"
  by (simp_all add: calendar_eval fixture_eval)

section \<open>Offsets by degrees at the geometric zenith\<close>

text \<open>
  C6. For every calendar (date, location and calculator),
  \<open>getSunriseOffsetByDegrees(90)\<close> is \<open>getSunrise()\<close> and
  \<open>getSunsetOffsetByDegrees(90)\<close> is \<open>getSunset()\<close>, \<^verbatim>\<open>null\<close> and every
  exception included.
\<close>

theorem offsetByDegrees_geometric_zenith:
  "getSunriseOffsetByDegrees c (Fin 90) = getSunrise c
   \<and> getSunsetOffsetByDegrees c (Fin 90) = getSunset c"
  by (simp add: getSunriseOffsetByDegrees_def getSunrise_def getSunsetOffsetByDegrees_def
      getSunset_def GEOMETRIC_ZENITH_def)

theorem offsetByDegrees_geometric_zenith_witness:
  "getSunriseOffsetByDegrees denver_calendar (Fin 90)
     = Inr (Some \<lparr>epochNanoseconds = 1591356262500000000, timeZoneId = ''America/Denver''\<rparr>)
   \<and> getSunrise denver_calendar
     = Inr (Some \<lparr>epochNanoseconds = 1591356262500000000, timeZoneId = ''America/Denver''\<rparr>)
   \<and> getSunsetOffsetByDegrees denver_calendar (Fin 90)
     = Inr (Some \<lparr>epochNanoseconds = 1591410775781000000, timeZoneId = ''America/Denver''\<rparr>)
   \<and> getSunset denver_calendar
     = Inr (Some \<lparr>epochNanoseconds = 1591410775781000000, timeZoneId = ''America/Denver''\<rparr>)
   \<and> getSunriseOffsetByDegrees polar_calendar (Fin 90) = Inr None
   \<and> getSunrise polar_calendar = Inr None"
  using offsetByDegrees_geometric_zenith [of denver_calendar]
    offsetByDegrees_geometric_zenith [of polar_calendar]
  by (simp add: fixture_getSunrise fixture_getSunset polar_getSunrise)

section \<open>The comparators of Zman\<close>

lemma compare_values: "compare x y \<in> {- 1, 0, 1}"
  by (simp add: compare_def)

lemma compare_converse:
  "a \<noteq> NaN \<Longrightarrow> b \<noteq> NaN \<Longrightarrow> sgn (compare a b) = - sgn (compare b a)"
  by (cases a; cases b) (auto simp: compare_def js_greater_def)

lemma compare_transitive:
  "a \<noteq> NaN \<Longrightarrow> b \<noteq> NaN \<Longrightarrow> c \<noteq> NaN \<Longrightarrow> compare a b \<le> 0 \<Longrightarrow> compare b c \<le> 0
     \<Longrightarrow> compare a c \<le> 0"
  by (cases a; cases b; cases c) (auto simp: compare_def js_greater_def split: if_splits)

lemma or_zero_not_NaN: "or_zero x \<noteq> NaN"
  by (simp add: or_zero_def split: option.splits jsnum.splits)

lemma sortable_by_number:
  assumes "\<And>a b. cmp a b = compare (key a) (key b)" and "\<And>a. key a \<noteq> NaN"
  shows "sortable_comparator cmp"
  unfolding sortable_comparator_def assms(1)
  using compare_converse [OF assms(2) assms(2)] compare_transitive [OF assms(2) assms(2) assms(2)]
  by blast

lemma compareTo_loop_sign:
  "k \<le> length s1 \<Longrightarrow> k \<le> length s2 \<Longrightarrow>
     (compareTo_loop s1 s2 k < 0 \<longleftrightarrow> drop k s1 < drop k s2)
     \<and> (compareTo_loop s1 s2 k = 0 \<longleftrightarrow> drop k s1 = drop k s2)"
proof (induction s1 s2 k rule: compareTo_loop.induct)
  case (1 s1 s2 k)
  show ?case
  proof (cases "k < min (length s1) (length s2)")
    case True
    then have k: "k < length s1" "k < length s2" by simp_all
    have d1: "drop k s1 = s1 ! k # drop (Suc k) s1" using k by (simp add: Cons_nth_drop_Suc)
    have d2: "drop k s2 = s2 ! k # drop (Suc k) s2" using k by (simp add: Cons_nth_drop_Suc)
    show ?thesis
    proof (cases "s1 ! k = s2 ! k")
      case eq: True
      have "compareTo_loop s1 s2 k = compareTo_loop s1 s2 (k + 1)"
        using True eq by (subst compareTo_loop.simps) simp
      moreover have "(compareTo_loop s1 s2 (k + 1) < 0 \<longleftrightarrow> drop (k + 1) s1 < drop (k + 1) s2)
         \<and> (compareTo_loop s1 s2 (k + 1) = 0 \<longleftrightarrow> drop (k + 1) s1 = drop (k + 1) s2)"
        using "1.IH" [OF True] eq k by simp
      ultimately show ?thesis by (simp add: d1 d2 eq)
    next
      case ne: False
      have r: "compareTo_loop s1 s2 k = uint (s1 ! k) - uint (s2 ! k)"
        using True ne by (subst compareTo_loop.simps) simp
      have "uint (s1 ! k) \<noteq> uint (s2 ! k)" using ne by (simp add: word_uint_eq_iff)
      then show ?thesis using ne by (simp add: r d1 d2 word_less_def)
    qed
  next
    case False
    have r: "compareTo_loop s1 s2 k = int (length s1) - int (length s2)"
      using False by (subst compareTo_loop.simps) auto
    from False "1.prems" have "k = length s1 \<or> k = length s2" by auto
    then show ?thesis
    proof
      assume k: "k = length s1"
      show ?thesis
      proof (cases "drop k s2")
        case Nil
        then have "length s2 = k" using "1.prems" by simp
        then show ?thesis unfolding r using k Nil by simp
      next
        case (Cons y ys)
        then have "k < length s2" by (metis drop_eq_Nil2 list.distinct(1) not_le_imp_less)
        then show ?thesis unfolding r using k Cons by simp
      qed
    next
      assume k: "k = length s2"
      show ?thesis
      proof (cases "drop k s1")
        case Nil
        then have "length s1 = k" using "1.prems" by simp
        then show ?thesis unfolding r using k Nil by simp
      next
        case (Cons y ys)
        then have "k < length s1" by (metis drop_eq_Nil2 list.distinct(1) not_le_imp_less)
        then show ?thesis unfolding r using k Cons by simp
      qed
    qed
  qed
qed

lemma compareTo_sign:
  "(compareTo s1 s2 < 0 \<longleftrightarrow> s1 < s2) \<and> (compareTo s1 s2 = 0 \<longleftrightarrow> s1 = s2)
   \<and> (compareTo s1 s2 > 0 \<longleftrightarrow> s2 < s1)"
proof -
  have a: "(compareTo s1 s2 < 0 \<longleftrightarrow> s1 < s2)" and b: "(compareTo s1 s2 = 0 \<longleftrightarrow> s1 = s2)"
    using compareTo_loop_sign [of 0 s1 s2] by (simp_all add: compareTo_def)
  have "compareTo s1 s2 > 0 \<longleftrightarrow> \<not> (s1 < s2) \<and> s1 \<noteq> s2" using a b by linarith
  also have "\<dots> \<longleftrightarrow> s2 < s1" by auto
  finally show ?thesis using a b by simp
qed

lemma sortable_comparatorI:
  fixes key :: "'a \<Rightarrow> 'k::linorder"
  assumes "\<And>a b. (cmp a b < 0 \<longleftrightarrow> key a < key b) \<and> (cmp a b = 0 \<longleftrightarrow> key a = key b)"
  shows "sortable_comparator cmp"
proof -
  have lt: "cmp a b < 0 \<longleftrightarrow> key a < key b" and eq: "cmp a b = 0 \<longleftrightarrow> key a = key b" for a b
    using assms by blast+
  have gt: "cmp a b > 0 \<longleftrightarrow> key b < key a" for a b
  proof -
    have "cmp a b > 0 \<longleftrightarrow> \<not> cmp a b < 0 \<and> cmp a b \<noteq> 0" by linarith
    then show ?thesis unfolding lt eq by auto
  qed
  have le: "cmp a b \<le> 0 \<longleftrightarrow> key a \<le> key b" for a b
    using gt [of a b] by (simp add: not_less [symmetric])
  have "sgn (cmp a b) = - sgn (cmp b a)" for a b
    using lt [of a b] eq [of a b] gt [of a b] lt [of b a] eq [of b a] gt [of b a]
    by (cases "cmp a b" "0::int" rule: linorder_cases; cases "cmp b a" "0::int" rule: linorder_cases)
      auto
  moreover have "cmp a b \<le> 0 \<and> cmp b c \<le> 0 \<longrightarrow> cmp a c \<le> 0" for a b c
    unfolding le by auto
  ultimately show ?thesis unfolding sortable_comparator_def by blast
qed

lemma compareNameOrder_sign:
  "(compareNameOrder z1 z2 < 0 \<longleftrightarrow> or_empty (label z1) < or_empty (label z2))
   \<and> (compareNameOrder z1 z2 = 0 \<longleftrightarrow> or_empty (label z1) = or_empty (label z2))"
  using compareTo_sign [of "or_empty (label z1)" "or_empty (label z2)"]
  by (simp add: compareNameOrder_def)

text \<open>
  C9. The three comparators of \<^verbatim>\<open>Zman\<close> return a number for every pair of records
  (they are total functions: no branch raises), each is a comparator under which a
  collection is sortable, and a missing payload counts as its fallback: a missing
  instant as epoch 0, a missing label as the empty string, a missing duration (and the
  duration \<^verbatim>\<open>NaN\<close>) as 0. The date and duration comparators return -1, 0 or 1; the
  name comparator is negative, zero or positive as the first label, read as a sequence
  of code units, is before, equal to or after the second.
\<close>

theorem Zman_comparators_sortable:
  "sortable_comparator compareDateOrder
   \<and> sortable_comparator compareNameOrder
   \<and> sortable_comparator compareDurationOrder
   \<and> (zman z1 = None \<longrightarrow>
        compareDateOrder z1 z2
          = compareDateOrder (z1\<lparr>zman := Some \<lparr>epochNanoseconds = 0, timeZoneId = tz\<rparr>\<rparr>) z2
        \<and> compareDateOrder z2 z1
          = compareDateOrder z2 (z1\<lparr>zman := Some \<lparr>epochNanoseconds = 0, timeZoneId = tz\<rparr>\<rparr>))
   \<and> (label z1 = None \<longrightarrow>
        compareNameOrder z1 z2 = compareNameOrder (z1\<lparr>label := Some []\<rparr>) z2
        \<and> compareNameOrder z2 z1 = compareNameOrder z2 (z1\<lparr>label := Some []\<rparr>))
   \<and> (duration z1 = None \<or> duration z1 = Some NaN \<longrightarrow>
        compareDurationOrder z1 z2 = compareDurationOrder (z1\<lparr>duration := Some (Fin 0)\<rparr>) z2
        \<and> compareDurationOrder z2 z1 = compareDurationOrder z2 (z1\<lparr>duration := Some (Fin 0)\<rparr>))
   \<and> compareDateOrder z1 z2 \<in> {- 1, 0, 1}
   \<and> compareDurationOrder z1 z2 \<in> {- 1, 0, 1}
   \<and> (compareNameOrder z1 z2 < 0 \<longleftrightarrow> or_empty (label z1) < or_empty (label z2))
   \<and> (compareNameOrder z1 z2 = 0 \<longleftrightarrow> or_empty (label z1) = or_empty (label z2))"
proof -
  have d: "sortable_comparator compareDateOrder"
    by (rule sortable_by_number [where key = "\<lambda>z.
        or_zero (map_option (\<lambda>z. Fin (real_of_int (epochMilliseconds z))) (zman z))"])
      (simp_all add: compareDateOrder_def or_zero_not_NaN)
  have n: "sortable_comparator compareNameOrder"
    by (rule sortable_comparatorI [where key = "\<lambda>z. or_empty (label z)"])
      (rule compareNameOrder_sign)
  have u: "sortable_comparator compareDurationOrder"
    by (rule sortable_by_number [where key = "\<lambda>z. or_zero (duration z)"])
      (simp_all add: compareDurationOrder_def or_zero_not_NaN)
  have fd: "zman z1 = None \<longrightarrow>
        compareDateOrder z1 z2
          = compareDateOrder (z1\<lparr>zman := Some \<lparr>epochNanoseconds = 0, timeZoneId = tz\<rparr>\<rparr>) z2
        \<and> compareDateOrder z2 z1
          = compareDateOrder z2 (z1\<lparr>zman := Some \<lparr>epochNanoseconds = 0, timeZoneId = tz\<rparr>\<rparr>)"
    by (simp add: compareDateOrder_def or_zero_def epochMilliseconds_def)
  have fn: "label z1 = None \<longrightarrow>
        compareNameOrder z1 z2 = compareNameOrder (z1\<lparr>label := Some []\<rparr>) z2
        \<and> compareNameOrder z2 z1 = compareNameOrder z2 (z1\<lparr>label := Some []\<rparr>)"
    by (simp add: compareNameOrder_def or_empty_def)
  have fu: "duration z1 = None \<or> duration z1 = Some NaN \<longrightarrow>
        compareDurationOrder z1 z2 = compareDurationOrder (z1\<lparr>duration := Some (Fin 0)\<rparr>) z2
        \<and> compareDurationOrder z2 z1 = compareDurationOrder z2 (z1\<lparr>duration := Some (Fin 0)\<rparr>)"
    by (auto simp: compareDurationOrder_def or_zero_def)
  have v: "compareDateOrder z1 z2 \<in> {- 1, 0, 1}" "compareDurationOrder z1 z2 \<in> {- 1, 0, 1}"
    using compare_values by (simp_all add: compareDateOrder_def compareDurationOrder_def Let_def)
  from d n u fd fn fu v compareNameOrder_sign [of z1 z2] show ?thesis by blast
qed

lemma compareTo_eval: "compareTo [0x53, 0x75, 0x6E] [] = 3" "compareTo [] [0x53, 0x75, 0x6E] = - 3"
  "compareTo [0x53, 0x75, 0x6E] [0x53, 0x68] = 13"
  by (simp_all add: compareTo_def compareTo_loop.simps)

theorem Zman_comparators_sortable_witness:
  "zman shaah_zman = None \<and> label shaah_zman = None \<and> duration sunrise_zman = None
   \<and> compareDateOrder shaah_zman sunrise_zman = - 1
   \<and> compareDateOrder (shaah_zman\<lparr>zman := Some \<lparr>epochNanoseconds = 0, timeZoneId = ''UTC''\<rparr>\<rparr>)
         sunrise_zman = - 1
   \<and> compareNameOrder shaah_zman sunrise_zman = - 3
   \<and> compareNameOrder (shaah_zman\<lparr>label := Some []\<rparr>) sunrise_zman = - 3
   \<and> compareDurationOrder sunrise_zman shaah_zman = - 1
   \<and> compareDurationOrder (sunrise_zman\<lparr>duration := Some (Fin 0)\<rparr>) shaah_zman = - 1
   \<and> sgn (compareNameOrder sunrise_zman shaah_zman) = - sgn (compareNameOrder shaah_zman sunrise_zman)"
proof -
  have m: "zman shaah_zman = None" "label shaah_zman = None" "duration sunrise_zman = None"
    by (simp_all add: shaah_zman_def sunrise_zman_def)
  have e: "compareDateOrder shaah_zman sunrise_zman = - 1"
    "compareNameOrder shaah_zman sunrise_zman = - 3"
    "compareDurationOrder sunrise_zman shaah_zman = - 1"
    by (simp_all add: compareDateOrder_def compareNameOrder_def compareDurationOrder_def
        compare_def or_zero_def or_empty_def shaah_zman_def sunrise_zman_def fixture_sunrise_def
        compareTo_eval epochMilliseconds_def js_greater_def)
  note w1 = Zman_comparators_sortable [where ?z1.0 = shaah_zman and ?z2.0 = sunrise_zman
      and tz = "''UTC''"]
  note w2 = Zman_comparators_sortable [where ?z1.0 = sunrise_zman and ?z2.0 = shaah_zman
      and tz = "''UTC''"]
  have s: "sgn (compareNameOrder sunrise_zman shaah_zman)
      = - sgn (compareNameOrder shaah_zman sunrise_zman)"
    using w1 unfolding sortable_comparator_def by blast
  show ?thesis using m e w1 w2 s by simp
qed

section \<open>setDate\<close>

text \<open>
  C10. For every calendar, \<open>setDate\<close> with an argument that is neither a
  \<^verbatim>\<open>Temporal.PlainDate\<close>, a \<^verbatim>\<open>Date\<close>, a string nor a number returns without an
  exception and leaves the calendar, and so its date, as it was.
\<close>

theorem setDate_unsupported_argument:
  "setDate PlainDate_from c Other_arg = Inr c
   \<and> (\<forall>c'. setDate PlainDate_from c Other_arg = Inr c' \<longrightarrow> date c' = date c)"
  by (simp add: setDate_def)

theorem setDate_unsupported_argument_witness:
  "setDate (\<lambda>str. Inl RangeError) denver_calendar Other_arg = Inr denver_calendar
   \<and> date denver_calendar = 18418
   \<and> setDate (\<lambda>str. Inl RangeError) denver_calendar (Number_arg (Fin 0))
       = Inr (denver_calendar\<lparr>date := 0\<rparr>)"
  using setDate_unsupported_argument [of "\<lambda>str. Inl RangeError" denver_calendar]
  by (simp add: setDate_def plainDate_of_epochMilliseconds_def try_bind_def denver_calendar_def)

section \<open>Absence\<close>

lemma getSunTransit_absent:
  assumes "s = None \<or> e = None"
  shows "getSunTransit c (Some s) (Some e) = Inr None"
  using assms
  by (auto simp: getSunTransit_def getTemporalHour_def try_bind_def with_default_def
      Long_MIN_VALUE_def getTimeOffset_def split: option.splits)

lemma getTemporalHour_absent:
  assumes "s = None \<or> e = None"
  shows "getTemporalHour c (Some s) (Some e) = Inr NaN"
  using assms
  by (auto simp: getTemporalHour_def try_bind_def with_default_def Long_MIN_VALUE_def
      split: option.splits)

lemma getTimeOffset_Fin:
  "getTimeOffset (Some t) (Fin x)
     = (if valid_instant (epochNanoseconds t + truncation x * 1000000)
        then Inr (Some (t\<lparr>epochNanoseconds := epochNanoseconds t + truncation x * 1000000\<rparr>))
        else Inl RangeError)"
  by (simp add: getTimeOffset_def Long_MIN_VALUE_def add_milliseconds_def try_bind_def)

text \<open>
  C2, as the code has it. Absence propagates: when the calculator's fractional hour is
  \<^verbatim>\<open>NaN\<close>, the sunrise, the sunset, their sea-level forms and the offsets by degrees
  are \<^verbatim>\<open>null\<close>. \<open>getTemporalHour\<close> is the absent sentinel \<^verbatim>\<open>NaN\<close> and
  \<open>getSunTransit\<close> is \<^verbatim>\<open>null\<close> when either bound is \<^verbatim>\<open>null\<close>, be the bounds
  passed or the defaults (the sea-level sunrise and sunset). \<open>getTimeOffset\<close> is
  \<^verbatim>\<open>null\<close> when the time is \<^verbatim>\<open>null\<close> or the offset is \<^verbatim>\<open>NaN\<close>. Otherwise it is
  the time plus the offset cut to whole milliseconds by \<^verbatim>\<open>Math.trunc\<close> when that
  instant is within the range of Temporal, and a \<^verbatim>\<open>RangeError\<close> when it is not or
  when the offset is infinite.
\<close>

theorem absence_propagates:
  "(getAdjustedDate c = Inr d
      \<and> calc_getUTCSunrise (astronomicalCalculator c) d (geoLocation c) (Fin 90) True = Inr NaN
      \<longrightarrow> getSunrise c = Inr None)
   \<and> (getAdjustedDate c = Inr d
      \<and> calc_getUTCSunset (astronomicalCalculator c) d (geoLocation c) (Fin 90) True = Inr NaN
      \<longrightarrow> getSunset c = Inr None)
   \<and> (getAdjustedDate c = Inr d
      \<and> calc_getUTCSunrise (astronomicalCalculator c) d (geoLocation c) (Fin 90) False = Inr NaN
      \<longrightarrow> getSeaLevelSunrise c = Inr None)
   \<and> (getAdjustedDate c = Inr d
      \<and> calc_getUTCSunset (astronomicalCalculator c) d (geoLocation c) (Fin 90) False = Inr NaN
      \<longrightarrow> getSeaLevelSunset c = Inr None)
   \<and> (getAdjustedDate c = Inr d
      \<and> calc_getUTCSunrise (astronomicalCalculator c) d (geoLocation c) z True = Inr NaN
      \<longrightarrow> getSunriseOffsetByDegrees c z = Inr None)
   \<and> (getAdjustedDate c = Inr d
      \<and> calc_getUTCSunset (astronomicalCalculator c) d (geoLocation c) z True = Inr NaN
      \<longrightarrow> getSunsetOffsetByDegrees c z = Inr None)
   \<and> (startOfDay = None \<or> endOfDay = None
      \<longrightarrow> getTemporalHour c (Some startOfDay) (Some endOfDay) = Inr NaN
        \<and> getSunTransit c (Some startOfDay) (Some endOfDay) = Inr None)
   \<and> (getSeaLevelSunrise c = Inr startOfDay \<and> getSeaLevelSunset c = Inr endOfDay
        \<and> (startOfDay = None \<or> endOfDay = None)
      \<longrightarrow> getTemporalHour c None None = Inr NaN \<and> getSunTransit c None None = Inr None)
   \<and> (time = None \<or> offset = NaN \<longrightarrow> getTimeOffset time offset = Inr None)
   \<and> (valid_instant (epochNanoseconds t + truncation x * 1000000)
      \<longrightarrow> getTimeOffset (Some t) (Fin x)
          = Inr (Some (t\<lparr>epochNanoseconds := epochNanoseconds t + truncation x * 1000000\<rparr>)))
   \<and> (\<not> valid_instant (epochNanoseconds t + truncation x * 1000000)
      \<longrightarrow> getTimeOffset (Some t) (Fin x) = Inl RangeError)
   \<and> getTimeOffset (Some t) PosInf = Inl RangeError
   \<and> getTimeOffset (Some t) NegInf = Inl RangeError"
proof (intro conjI impI)
  assume "time = None \<or> offset = NaN"
  then show "getTimeOffset time offset = Inr None"
    by (auto simp: getTimeOffset_def split: option.splits)
next
  assume a: "startOfDay = None \<or> endOfDay = None"
  then show "getTemporalHour c (Some startOfDay) (Some endOfDay) = Inr NaN"
    by (rule getTemporalHour_absent)
  from a show "getSunTransit c (Some startOfDay) (Some endOfDay) = Inr None"
    by (rule getSunTransit_absent)
next
  assume a: "getSeaLevelSunrise c = Inr startOfDay \<and> getSeaLevelSunset c = Inr endOfDay
        \<and> (startOfDay = None \<or> endOfDay = None)"
  then show "getTemporalHour c None None = Inr NaN"
    using getTemporalHour_absent [of startOfDay endOfDay c]
    by (simp add: getTemporalHour_def try_bind_def with_default_def)
  from a show "getSunTransit c None None = Inr None"
    using getSunTransit_absent [of startOfDay endOfDay c]
    by (simp add: getSunTransit_def try_bind_def with_default_def)
next
  show "getTimeOffset (Some t) PosInf = Inl RangeError"
    by (simp add: getTimeOffset_def Long_MIN_VALUE_def add_milliseconds_def try_bind_def)
  show "getTimeOffset (Some t) NegInf = Inl RangeError"
    by (simp add: getTimeOffset_def Long_MIN_VALUE_def add_milliseconds_def try_bind_def)
qed (simp_all add: getSunrise_def getSunset_def getSeaLevelSunrise_def getSeaLevelSunset_def
      getSunriseOffsetByDegrees_def getSunsetOffsetByDegrees_def getUTCSunrise_def
      getUTCSunset_def getUTCSeaLevelSunrise_def getUTCSeaLevelSunset_def GEOMETRIC_ZENITH_def
      try_bind_def getTimeOffset_Fin)

theorem absence_propagates_witness:
  "getSunrise polar_calendar = Inr None
   \<and> getSunset polar_calendar = Inr None
   \<and> getSeaLevelSunrise polar_calendar = Inr None
   \<and> getSeaLevelSunset polar_calendar = Inr None
   \<and> getSunriseOffsetByDegrees polar_calendar (Fin 96) = Inr None
   \<and> getSunsetOffsetByDegrees polar_calendar (Fin 96) = Inr None
   \<and> getTemporalHour polar_calendar (Some None) (Some (Some fixture_sunset)) = Inr NaN
   \<and> getSunTransit polar_calendar (Some None) (Some (Some fixture_sunset)) = Inr None
   \<and> getTemporalHour polar_calendar None None = Inr NaN
   \<and> getSunTransit polar_calendar None None = Inr None
   \<and> getTimeOffset (Some fixture_sunrise) NaN = Inr None
   \<and> getTimeOffset (Some fixture_sunrise) (Fin (53555581 / 2))
       = Inr (Some \<lparr>epochNanoseconds = 1591383523797000000, timeZoneId = ''America/Denver''\<rparr>)
   \<and> getTimeOffset (Some fixture_sunrise) (Fin 8638408643253994) = Inl RangeError"
proof -
  have ad: "getAdjustedDate polar_calendar = Inr 18418"
    by (simp add: getAdjustedDate_def polar_calendar_def denver_def)
  have nan: "calc_getUTCSunrise (astronomicalCalculator polar_calendar) d g z' b = Inr NaN"
    "calc_getUTCSunset (astronomicalCalculator polar_calendar) d g z' b = Inr NaN" for d g z' b
    by (simp_all add: polar_calendar_def polar_calculator_def)
  note w = absence_propagates [where c = polar_calendar and d = 18418 and z = "Fin 96"
      and startOfDay = None and endOfDay = "Some fixture_sunset" and time = "Some fixture_sunrise"
      and offset = NaN and t = fixture_sunrise and x = "53555581 / 2"]
  have sl: "getSeaLevelSunrise polar_calendar = Inr None" using w ad nan by blast
  have ss: "getSeaLevelSunset polar_calendar = Inr None" using w ad nan by blast
  note w' = absence_propagates [where c = polar_calendar and startOfDay = None
      and endOfDay = None]
  have d: "getTemporalHour polar_calendar None None = Inr NaN"
    "getSunTransit polar_calendar None None = Inr None"
    using w' sl ss by blast+
  have v: "valid_instant (epochNanoseconds fixture_sunrise + truncation (53555581 / 2) * 1000000)"
    by (simp add: valid_instant_def fixture_sunrise_def truncation_def)
  have o: "getTimeOffset (Some fixture_sunrise) (Fin (53555581 / 2))
       = Inr (Some \<lparr>epochNanoseconds = 1591383523797000000, timeZoneId = ''America/Denver''\<rparr>)"
    using w v by (simp add: fixture_sunrise_def truncation_def)
  note w'' = absence_propagates [where t = fixture_sunrise and x = 8638408643253994]
  have "\<not> valid_instant (epochNanoseconds fixture_sunrise + truncation 8638408643253994 * 1000000)"
    by (simp add: valid_instant_def fixture_sunrise_def truncation_def)
  with w'' have r: "getTimeOffset (Some fixture_sunrise) (Fin 8638408643253994) = Inl RangeError"
    by blast
  show ?thesis using w ad nan sl ss d o r by simp
qed

text \<open>
  An offset of 8.64e15 milliseconds, the largest distance from the epoch that Temporal
  represents, added to the sunrise of the test fixture: the code throws, and so does not
  return the time plus the offset.
\<close>

theorem getTimeOffset_out_of_range_counterexample:
  "getTimeOffset (Some fixture_sunrise) (Fin 8640000000000000) = Inl RangeError
   \<and> getTimeOffset (Some fixture_sunrise) (Fin 8640000000000000)
       \<noteq> Inr (Some (fixture_sunrise\<lparr>epochNanoseconds :=
            epochNanoseconds fixture_sunrise + 8640000000000000 * 1000000\<rparr>))
   \<and> getTimeOffset (Some fixture_sunrise) PosInf = Inl RangeError"
  by (simp add: getTimeOffset_Fin valid_instant_def fixture_sunrise_def truncation_def
      getTimeOffset_def Long_MIN_VALUE_def add_milliseconds_def try_bind_def)

section \<open>Temporal hour and sun transit\<close>

lemma abs_le_2_53:
  "\<bar>d\<bar> \<le> 2 ^ 53 \<longleftrightarrow> - 9007199254740992 \<le> d \<and> d \<le> (9007199254740992::int)"
  by (simp add: abs_le_iff) linarith

lemma js_minus_int:
  assumes "\<bar>e - s\<bar> \<le> 2 ^ 53"
  shows "js_minus (Fin (real_of_int e)) (Fin (real_of_int s)) = Fin (real_of_int (e - s))"
  using round_double_exact [OF is_double_int [OF assms]] by (simp add: js_minus_def)

lemma js_times_int:
  assumes "\<bar>h * k\<bar> \<le> 2 ^ 53"
  shows "js_times (Fin (real_of_int h)) (Fin (real_of_int k)) = Fin (real_of_int (h * k))"
  using round_double_exact [OF is_double_int [OF assms]] by simp

lemma floor_round_twelfth:
  assumes "\<bar>d\<bar> \<le> 2 ^ 53"
  shows "Math_floor (js_divide (Fin (real_of_int d)) (Fin 12)) = Fin (real_of_int (d div 12))"
proof -
  define q r where "q = d div 12" and "r = d mod 12"
  have d: "d = 12 * q + r" by (simp add: q_def r_def)
  have r: "0 \<le> r" "r \<le> 11" by (simp_all add: r_def)
  from assms have db: "- 9007199254740992 \<le> d" "d \<le> 9007199254740992"
    by (simp_all add: abs_le_2_53)
  have qb: "- 750599937895083 \<le> q" "q \<le> 750599937895083" using d r db by linarith+
  define y where "y = real_of_int d / 12"
  have y: "y = real_of_int q + real_of_int r / 12" unfolding y_def d by simp
  have dq: "is_double (real_of_int q)"
    by (rule is_double_int) (use qb in \<open>simp add: abs_le_2_53\<close>)
  have dq1: "is_double (real_of_int q + 1)"
  proof -
    have "is_double (real_of_int (q + 1))"
      by (rule is_double_int) (use qb in \<open>simp add: abs_le_2_53\<close>)
    then show ?thesis by simp
  qed
  have dp: "is_double (real_of_int q + 7 / 8)"
  proof -
    have "\<bar>8 * q + 7\<bar> < 9007199254740992" using qb by linarith
    then have "\<bar>8 * q + 7\<bar> < 2 ^ 53" by simp
    then have "is_double (real_of_int (8 * q + 7) / 2 ^ 3)" by (rule is_double_dyadic) simp
    moreover have "real_of_int (8 * q + 7) / 2 ^ 3 = real_of_int q + 7 / 8" by simp
    ultimately show ?thesis by (simp only:)
  qed
  have "\<exists>v. round_double y = Fin v \<and> real_of_int q \<le> v \<and> v < real_of_int q + 1"
  proof (cases "r \<le> 10")
    case True
    then have "real_of_int r \<le> 10" by simp
    then have "real_of_int q \<le> y" "y \<le> real_of_int q + 7 / 8" using r(1) unfolding y by simp_all
    from round_double_between [OF dq dp this]
    show ?thesis by fastforce
  next
    case False
    with r have "r = 11" by simp
    then have y': "y = real_of_int q + 11 / 12" unfolding y by simp
    have "real_of_int q + 7 / 8 \<le> y" "y - (real_of_int q + 7 / 8) < real_of_int q + 1 - y"
      unfolding y' by simp_all
    from round_double_closer [OF dp dq1 this]
    show ?thesis by fastforce
  qed
  then obtain v where v: "round_double y = Fin v" "real_of_int q \<le> v" "v < real_of_int q + 1"
    by blast
  have "\<lfloor>v\<rfloor> = q" using v(2,3) by (simp add: floor_unique)
  then show ?thesis using v(1) by (simp add: y_def q_def)
qed

lemma getTemporalHour_given:
  assumes "\<bar>epochMilliseconds b - epochMilliseconds a\<bar> \<le> 2 ^ 53"
  shows "getTemporalHour c (Some (Some a)) (Some (Some b))
     = Inr (Fin (real_of_int ((epochMilliseconds b - epochMilliseconds a) div 12)))"
  by (simp add: getTemporalHour_def try_bind_def with_default_def js_minus_int [OF assms]
      floor_round_twelfth [OF assms] del: of_int_diff js_divide.simps)

lemma six_twelfths:
  assumes "\<bar>d\<bar> \<le> (2::int) ^ 53"
  shows "\<bar>d div 12 * 6\<bar> \<le> 2 ^ 53"
proof -
  define q r where "q = d div 12" and "r = d mod 12"
  have d: "d = 12 * q + r" by (simp add: q_def r_def)
  have r: "0 \<le> r" "r \<le> 11" by (simp_all add: r_def)
  from assms have db: "- 9007199254740992 \<le> d" "d \<le> 9007199254740992"
    by (simp_all add: abs_le_2_53)
  have "- 9007199254740992 \<le> q * 6" "q * 6 \<le> 9007199254740992" using d r db by linarith+
  then show ?thesis unfolding q_def [symmetric] by (simp add: abs_le_2_53)
qed

lemma getSunTransit_given:
  assumes "\<bar>epochMilliseconds b - epochMilliseconds a\<bar> \<le> 2 ^ 53"
  shows "getSunTransit c (Some (Some a)) (Some (Some b))
     = getTimeOffset (Some a)
         (Fin (real_of_int ((epochMilliseconds b - epochMilliseconds a) div 12 * 6)))"
proof -
  have "js_times (Fin (real_of_int ((epochMilliseconds b - epochMilliseconds a) div 12)))
          (Fin (real_of_int 6))
        = Fin (real_of_int ((epochMilliseconds b - epochMilliseconds a) div 12 * 6))"
    by (rule js_times_int) (rule six_twelfths [OF assms])
  then show ?thesis
    by (simp add: getSunTransit_def getTemporalHour_given [OF assms] try_bind_def with_default_def
        del: of_int_diff of_int_mult)
qed

text \<open>
  C4, as the code has it. For instants \<open>a\<close> and \<open>b\<close> with \<open>b\<close> after \<open>a\<close> and at most
  \<open>2 ^ 53\<close> milliseconds between them, \<open>getTemporalHour(a, b)\<close> is the difference of
  their epoch milliseconds divided by 12 as an integer, which for this positive
  difference is the quotient with truncation; and when either bound is \<^verbatim>\<open>null\<close> the
  result is the absent sentinel \<^verbatim>\<open>Long_MIN_VALUE\<close>, which is \<^verbatim>\<open>NaN\<close>.
\<close>

theorem getTemporalHour_twelfth:
  "(epochMilliseconds a < epochMilliseconds b
      \<and> epochMilliseconds b - epochMilliseconds a \<le> 2 ^ 53 \<longrightarrow>
      getTemporalHour c (Some (Some a)) (Some (Some b))
        = Inr (Fin (real_of_int ((epochMilliseconds b - epochMilliseconds a) div 12)))
      \<and> (epochMilliseconds b - epochMilliseconds a) div 12
        = truncation (real_of_int (epochMilliseconds b - epochMilliseconds a) / 12))
   \<and> (startOfday = None \<or> endOfDay = None \<longrightarrow>
      getTemporalHour c (Some startOfday) (Some endOfDay) = Inr Long_MIN_VALUE)
   \<and> Long_MIN_VALUE = NaN"
proof (intro conjI impI)
  assume lt: "epochMilliseconds a < epochMilliseconds b
      \<and> epochMilliseconds b - epochMilliseconds a \<le> 2 ^ 53"
  then have ab: "\<bar>epochMilliseconds b - epochMilliseconds a\<bar> \<le> 2 ^ 53" by simp
  show "getTemporalHour c (Some (Some a)) (Some (Some b))
        = Inr (Fin (real_of_int ((epochMilliseconds b - epochMilliseconds a) div 12)))"
    by (rule getTemporalHour_given [OF ab])
  have "real_of_int (epochMilliseconds b - epochMilliseconds a) / 12
      = real_of_int (epochMilliseconds b - epochMilliseconds a) / real_of_int 12" by simp
  then have fl: "\<lfloor>real_of_int (epochMilliseconds b - epochMilliseconds a) / 12\<rfloor>
      = (epochMilliseconds b - epochMilliseconds a) div 12"
    by (simp only: floor_divide_of_int_eq)
  show "(epochMilliseconds b - epochMilliseconds a) div 12
        = truncation (real_of_int (epochMilliseconds b - epochMilliseconds a) / 12)"
    using lt fl by (simp add: truncation_def del: of_int_diff)
next
  assume "startOfday = None \<or> endOfDay = None"
  then show "getTemporalHour c (Some startOfday) (Some endOfDay) = Inr Long_MIN_VALUE"
    using getTemporalHour_absent [of startOfday endOfDay c] by (simp add: Long_MIN_VALUE_def)
next
  show "Long_MIN_VALUE = NaN" by (simp add: Long_MIN_VALUE_def)
qed

theorem getTemporalHour_twelfth_witness:
  "epochMilliseconds fixture_sunrise < epochMilliseconds fixture_sunset
   \<and> epochMilliseconds fixture_sunset - epochMilliseconds fixture_sunrise \<le> 2 ^ 53
   \<and> getTemporalHour denver_calendar (Some (Some fixture_sunrise)) (Some (Some fixture_sunset))
       = Inr (Fin 4462965)
   \<and> truncation (53555581 / 12) = 4462965
   \<and> getTemporalHour denver_calendar (Some None) (Some (Some fixture_sunset)) = Inr NaN
   \<and> getTemporalHour denver_calendar (Some (Some fixture_sunrise)) (Some None) = Inr NaN"
  using getTemporalHour_twelfth [where a = fixture_sunrise and b = fixture_sunset
      and c = denver_calendar and startOfday = None and endOfDay = "Some fixture_sunset"]
    getTemporalHour_twelfth [where a = fixture_sunrise and b = fixture_sunset
      and c = denver_calendar and startOfday = "Some fixture_sunrise" and endOfDay = None]
  by (simp add: fixture_sunrise_def fixture_sunset_def epochMilliseconds_def)

text \<open>
  From \<open>2 ^ 53\<close> on, the doubles are even whole numbers, and those with an even
  significand are multiples of four.
\<close>

lemma double_above_2_53:
  assumes "x = real_of_int m * 2 powi e" "\<bar>m\<bar> < 2 ^ 53" "2 ^ 53 \<le> \<bar>x\<bar>"
  shows "\<exists>k. x = 2 * real_of_int (m * k)"
proof -
  have e: "1 \<le> e"
  proof (rule ccontr)
    assume "\<not> 1 \<le> e"
    then have "e \<le> 0" by simp
    then have "(2::real) powi e \<le> 2 powi 0" by (intro power_int_increasing) simp_all
    then have p: "(2::real) powi e \<le> 1" by simp
    have "\<bar>x\<bar> = \<bar>real_of_int m\<bar> * 2 powi e" unfolding assms(1) by (simp add: abs_mult)
    also have "\<dots> \<le> \<bar>real_of_int m\<bar> * 1"
      by (rule mult_left_mono) (use p in simp_all)
    also have "\<dots> < 2 ^ 53" using real_of_int_abs_less [OF assms(2)] by simp
    finally show False using assms(3) by simp
  qed
  then have "nat e = Suc (nat (e - 1))" by simp
  moreover have "(2::real) powi e = 2 ^ nat e" using e by (simp add: power_int_def)
  ultimately have "(2::real) powi e = 2 * 2 ^ nat (e - 1)" by simp
  then have "x = 2 * real_of_int (m * 2 ^ nat (e - 1))" unfolding assms(1) by simp
  then show ?thesis by blast
qed

lemma is_double_above_2_53:
  assumes "is_double x" "2 ^ 53 \<le> \<bar>x\<bar>"
  shows "\<exists>k. x = real_of_int (2 * k)"
proof -
  from assms(1) obtain m e where x: "x = real_of_int m * 2 powi e" and m: "\<bar>m\<bar> < 2 ^ 53"
    unfolding is_double_def by blast
  from double_above_2_53 [OF x m assms(2)] obtain k where "x = 2 * real_of_int (m * k)" by blast
  then have "x = real_of_int (2 * (m * k))" by simp
  then show ?thesis by blast
qed

lemma even_double_above_2_53:
  assumes "even_double x" "2 ^ 53 \<le> \<bar>x\<bar>"
  shows "\<exists>k. x = real_of_int (4 * k)"
proof -
  from assms(1) obtain m e where x: "x = real_of_int (2 * m) * 2 powi e"
    and m: "\<bar>2 * m\<bar> < 2 ^ 53"
    unfolding even_double_def by blast
  from double_above_2_53 [OF x m assms(2)] obtain k where "x = 2 * real_of_int (2 * m * k)"
    by blast
  then have "x = real_of_int (4 * (m * k))" by simp
  then show ?thesis by blast
qed

lemma round_double_tie: "round_double 17279999999999999 = Fin 17280000000000000"
proof -
  define x :: real where "x = 17279999999999999"
  have dlo: "is_double 17279999999999998"
    using is_doubleI [of 8639999999999999 1] by simp
  have dhi: "is_double 17280000000000000"
    using is_doubleI [of 8640000000000000 1] by simp
  have ab: "\<bar>x\<bar> \<le> max_double"
    using is_double_abs_le [OF dhi] by (simp add: x_def)
  then have a: "- max_double \<le> x" "x \<le> max_double" by simp_all
  note d = round_down_props [OF a(1)] and u = round_up_props [OF a(2)]
  have d3: "17279999999999998 \<le> round_down x" by (rule d(3) [OF dlo]) (simp add: x_def)
  have u3: "round_up x \<le> 17280000000000000" by (rule u(3) [OF dhi]) (simp add: x_def)
  have rd: "round_down x = 17279999999999998"
  proof -
    have "2 ^ 53 \<le> \<bar>round_down x\<bar>" using d3 by simp
    from is_double_above_2_53 [OF d(1) this] obtain k where k: "round_down x = real_of_int (2 * k)"
      by blast
    have "real_of_int 17279999999999998 \<le> real_of_int (2 * k)" using d3 k by simp
    then have lo: "17279999999999998 \<le> 2 * k" by (simp only: of_int_le_iff)
    have "real_of_int (2 * k) \<le> real_of_int 17279999999999999" using d(2) k by (simp add: x_def)
    then have hi: "2 * k \<le> 17279999999999999" by (simp only: of_int_le_iff)
    from lo hi have "2 * k = 17279999999999998" by presburger
    then have "real_of_int (2 * k) = real_of_int 17279999999999998" by (simp only:)
    then show ?thesis unfolding k by simp
  qed
  have ru: "round_up x = 17280000000000000"
  proof -
    have "17279999999999999 \<le> round_up x" using u(2) by (simp add: x_def)
    then have "2 ^ 53 \<le> \<bar>round_up x\<bar>" by simp
    from is_double_above_2_53 [OF u(1) this] obtain k where k: "round_up x = real_of_int (2 * k)"
      by blast
    have "real_of_int 17279999999999999 \<le> real_of_int (2 * k)" using u(2) k by (simp add: x_def)
    then have lo: "17279999999999999 \<le> 2 * k" by (simp only: of_int_le_iff)
    have "real_of_int (2 * k) \<le> real_of_int 17280000000000000" using u3 k by simp
    then have hi: "2 * k \<le> 17280000000000000" by (simp only: of_int_le_iff)
    from lo hi have "2 * k = 17280000000000000" by presburger
    then have "real_of_int (2 * k) = real_of_int 17280000000000000" by (simp only:)
    then show ?thesis unfolding k by simp
  qed
  have ne: "\<not> even_double 17279999999999998"
  proof
    assume "even_double 17279999999999998"
    from even_double_above_2_53 [OF this] obtain k where "17279999999999998 = real_of_int (4 * k)"
      by auto
    then have "real_of_int 17279999999999998 = real_of_int (4 * k)" by simp
    then have "17279999999999998 = 4 * k" by (simp only: of_int_eq_iff)
    then show False by presburger
  qed
  have "nearest_double x = 17280000000000000"
    unfolding nearest_double_def rd ru Let_def using ne by (simp add: x_def)
  then show ?thesis using round_double_nearest [OF ab] by (simp add: x_def)
qed

text \<open>
  Between the first instant of Temporal and the last but one millisecond lie
  17279999999999999 milliseconds, which is not a double: the difference is rounded to
  17280000000000000, and the twelfth of that is one more than the quotient of the
  whole numbers.
\<close>

theorem getTemporalHour_rounded_difference_counterexample:
  "epochMilliseconds first_instant < epochMilliseconds late_instant
   \<and> getTemporalHour denver_calendar (Some (Some first_instant)) (Some (Some late_instant))
       = Inr (Fin 1440000000000000)
   \<and> temporalHour_integer first_instant late_instant = 1439999999999999
   \<and> truncation (17279999999999999 / 12) = 1439999999999999"
proof -
  have e: "epochMilliseconds first_instant = - 8640000000000000"
    "epochMilliseconds late_instant = 8639999999999999"
    by (simp_all add: epochMilliseconds_def first_instant_def late_instant_def)
  have "getTemporalHour denver_calendar (Some (Some first_instant)) (Some (Some late_instant))
       = Inr (Fin 1440000000000000)"
    by (simp add: getTemporalHour_def try_bind_def with_default_def e js_minus_def
        round_double_tie round_double_exact)
  then show ?thesis by (simp add: e temporalHour_integer_def truncation_def)
qed

lemma div_mod_million: "(n::int) = 1000000 * (n div 1000000) + n mod 1000000"
  by simp


lemma fixture_instants:
  "valid_instant (epochNanoseconds fixture_sunrise)" "valid_instant (epochNanoseconds fixture_sunset)"
  "epochNanoseconds fixture_sunrise < epochNanoseconds fixture_sunset"
  "epochMilliseconds fixture_sunset - epochMilliseconds fixture_sunrise \<le> 2 ^ 53"
  "epochMilliseconds fixture_sunset - epochMilliseconds fixture_sunrise = 53555581"
  by (simp_all add: valid_instant_def fixture_sunrise_def fixture_sunset_def epochMilliseconds_def)

lemma fixture_transit:
  "getSunTransit denver_calendar (Some (Some fixture_sunrise)) (Some (Some fixture_sunset))
     = Inr (Some \<lparr>epochNanoseconds = 1591383523797000000, timeZoneId = ''America/Denver''\<rparr>)"
proof -
  have "\<bar>epochMilliseconds fixture_sunset - epochMilliseconds fixture_sunrise\<bar> \<le> 2 ^ 53"
    by (simp add: fixture_instants(5))
  from getSunTransit_given [OF this, of denver_calendar]
  have "getSunTransit denver_calendar (Some (Some fixture_sunrise)) (Some (Some fixture_sunset))
      = getTimeOffset (Some fixture_sunrise) (Fin (real_of_int (53555581 div 12 * 6)))"
    unfolding fixture_instants(5) .
  then show ?thesis
    by (simp add: getTimeOffset_Fin valid_instant_def fixture_sunrise_def truncation_def)
qed



section \<open>The solar dip search\<close>

lemma dip_degrees_0: "dip_degrees inc m 0 = 0"
  by (simp add: dip_degrees_def)

lemma dip_degrees_Suc:
  "dip_degrees inc m (Suc k)
     = (if js_greater m (Fin 0) then dip_degrees inc m k + inc else dip_degrees inc m k - inc)"
  by (simp add: dip_degrees_def algebra_simps)

lemma instant_comparison_throws:
  "instant_less d t = Inl TypeError" "instant_greater d t = Inl TypeError"
  by (simp_all add: instant_less_def instant_greater_def ZonedDateTime_valueOf_def try_bind_def)

lemma dip_continue_null:
  "sunrise_dip_continue m t None = Inr True" "sunset_dip_continue m t None = Inr True"
  by (simp_all add: sunrise_dip_continue_def sunset_dip_continue_def)

lemma dip_continue_throws:
  assumes "js_less m (Fin 0) \<or> js_greater m (Fin 0)"
  shows "sunrise_dip_continue m t (Some d) = Inl TypeError"
    and "sunset_dip_continue m t (Some d) = Inl TypeError"
  using assms
  by (auto simp: sunrise_dip_continue_def sunset_dip_continue_def instant_comparison_throws
      try_bind_def)

lemma sunriseSolarDip_loop_throws:
  assumes "js_less m (Fin 0) \<or> js_greater m (Fin 0)"
  shows "sunriseSolarDip_loop c m t degrees (Some d) = Some (Inl TypeError)"
  by (subst sunriseSolarDip_loop.simps) (simp add: dip_continue_throws [OF assms])

lemma sunsetSolarDip_loop_throws:
  assumes "js_less m (Fin 0) \<or> js_greater m (Fin 0)"
  shows "sunsetSolarDip_loop c m t degrees (Some d) = Some (Inl TypeError)"
  by (subst sunsetSolarDip_loop.simps) (simp add: dip_continue_throws [OF assms])

lemma sunriseSolarDip_loop_step:
  assumes "sunrise_dip_candidate c m (Suc k) = Inr cand'"
  shows "sunriseSolarDip_loop c m t (dip_degrees (1 / 10000) m k) None
       = sunriseSolarDip_loop c m t (dip_degrees (1 / 10000) m (Suc k)) cand'"
  using assms
  by (subst sunriseSolarDip_loop.simps)
    (simp add: dip_continue_null dip_degrees_Suc Let_def sunrise_dip_candidate_def)

lemma sunsetSolarDip_loop_step:
  assumes "sunset_dip_candidate c m (Suc k) = Inr cand'"
  shows "sunsetSolarDip_loop c m t (dip_degrees (1 / 1000) m k) None
       = sunsetSolarDip_loop c m t (dip_degrees (1 / 1000) m (Suc k)) cand'"
  using assms
  by (subst sunsetSolarDip_loop.simps)
    (simp add: dip_continue_null dip_degrees_Suc Let_def sunset_dip_candidate_def)

lemma sunriseSolarDip_loop_steps:
  assumes "\<And>k. k < n \<Longrightarrow> sunrise_dip_candidate c m (Suc k) = Inr None"
  shows "sunriseSolarDip_loop c m t (dip_degrees (1 / 10000) m 0) None
       = sunriseSolarDip_loop c m t (dip_degrees (1 / 10000) m n) None"
  using assms
proof (induction n)
  case 0
  show ?case by simp
next
  case (Suc n)
  have "sunriseSolarDip_loop c m t (dip_degrees (1 / 10000) m 0) None
       = sunriseSolarDip_loop c m t (dip_degrees (1 / 10000) m n) None"
    using Suc.prems by (intro Suc.IH) simp
  also have "\<dots> = sunriseSolarDip_loop c m t (dip_degrees (1 / 10000) m (Suc n)) None"
    using Suc.prems [of n] by (intro sunriseSolarDip_loop_step) simp
  finally show ?case .
qed

lemma sunsetSolarDip_loop_steps:
  assumes "\<And>k. k < n \<Longrightarrow> sunset_dip_candidate c m (Suc k) = Inr None"
  shows "sunsetSolarDip_loop c m t (dip_degrees (1 / 1000) m 0) None
       = sunsetSolarDip_loop c m t (dip_degrees (1 / 1000) m n) None"
  using assms
proof (induction n)
  case 0
  show ?case by simp
next
  case (Suc n)
  have "sunsetSolarDip_loop c m t (dip_degrees (1 / 1000) m 0) None
       = sunsetSolarDip_loop c m t (dip_degrees (1 / 1000) m n) None"
    using Suc.prems by (intro Suc.IH) simp
  also have "\<dots> = sunsetSolarDip_loop c m t (dip_degrees (1 / 1000) m (Suc n)) None"
    using Suc.prems [of n] by (intro sunsetSolarDip_loop_step) simp
  finally show ?case .
qed

lemma sunriseSolarDip_loop_diverges:
  assumes inv: "\<And>k. sunrise_dip_candidate c m (Suc k) = Inr None"
  shows "sunriseSolarDip_loop c m t (dip_degrees (1 / 10000) m k) None = None"
proof (rule ccontr)
  assume "sunriseSolarDip_loop c m t (dip_degrees (1 / 10000) m k) None \<noteq> None"
  then obtain y where y: "sunriseSolarDip_loop c m t (dip_degrees (1 / 10000) m k) None = Some y"
    by blast
  define P where "P = (\<lambda>c' m' t' d' (o' :: ZonedDateTime option) (y' :: error + jsnum option).
      \<not> (c' = c \<and> m' = m \<and> t' = t \<and> o' = None \<and> (\<exists>k. d' = dip_degrees (1 / 10000) m k)))"
  have "P c m t (dip_degrees (1 / 10000) m k) None y"
  proof (rule sunriseSolarDip_loop.raw_induct [where P = P, OF _ y])
    fix loop c' m' t' d' o' y'
    assume IH: "\<And>a b c d e y. loop a b c d e = Some y \<Longrightarrow> P a b c d e y"
    assume body: "(case sunrise_dip_continue m' t' o' of
        Inl e \<Rightarrow> Some (Inl e)
      | Inr continue \<Rightarrow>
          if continue
          then (let degrees' = (if js_greater m' (Fin 0) then d' + 1 / 10000 else d' - 1 / 10000)
                in case getSunriseOffsetByDegrees c' (js_plus GEOMETRIC_ZENITH (round_double degrees')) of
                     Inl e \<Rightarrow> Some (Inl e)
                   | Inr offsetByDegrees' \<Rightarrow> loop c' m' t' degrees' offsetByDegrees')
          else Some (Inr (Some (round_double d')))) = Some y'"
    show "P c' m' t' d' o' y'"
      unfolding P_def
    proof
      assume a: "c' = c \<and> m' = m \<and> t' = t \<and> o' = None \<and> (\<exists>k. d' = dip_degrees (1 / 10000) m k)"
      then obtain j where j: "d' = dip_degrees (1 / 10000) m j" by blast
      have s: "(if js_greater m (Fin 0) then d' + 1 / 10000 else d' - 1 / 10000)
          = dip_degrees (1 / 10000) m (Suc j)"
        by (simp add: j dip_degrees_Suc)
      from a have e: "c' = c" "m' = m" "t' = t" "o' = None" by blast+
      have step: "getSunriseOffsetByDegrees c
          (js_plus GEOMETRIC_ZENITH (round_double (dip_degrees (1 / 10000) m (Suc j)))) = Inr None"
        using inv [of j] by (simp add: sunrise_dip_candidate_def)
      from body have "(case getSunriseOffsetByDegrees c
              (js_plus GEOMETRIC_ZENITH (round_double (dip_degrees (1 / 10000) m (Suc j)))) of
            Inl e \<Rightarrow> Some (Inl e)
          | Inr x \<Rightarrow> loop c m t (dip_degrees (1 / 10000) m (Suc j)) x) = Some y'"
        unfolding e Let_def s by (simp add: dip_continue_null)
      then have "loop c m t (dip_degrees (1 / 10000) m (Suc j)) None = Some y'"
        unfolding step by simp
      from IH [OF this] show False unfolding P_def by blast
    qed
  qed
  then show False unfolding P_def by blast
qed

lemma sunsetSolarDip_loop_diverges:
  assumes inv: "\<And>k. sunset_dip_candidate c m (Suc k) = Inr None"
  shows "sunsetSolarDip_loop c m t (dip_degrees (1 / 1000) m k) None = None"
proof (rule ccontr)
  assume "sunsetSolarDip_loop c m t (dip_degrees (1 / 1000) m k) None \<noteq> None"
  then obtain y where y: "sunsetSolarDip_loop c m t (dip_degrees (1 / 1000) m k) None = Some y"
    by blast
  define P where "P = (\<lambda>c' m' t' d' (o' :: ZonedDateTime option) (y' :: error + jsnum option).
      \<not> (c' = c \<and> m' = m \<and> t' = t \<and> o' = None \<and> (\<exists>k. d' = dip_degrees (1 / 1000) m k)))"
  have "P c m t (dip_degrees (1 / 1000) m k) None y"
  proof (rule sunsetSolarDip_loop.raw_induct [where P = P, OF _ y])
    fix loop c' m' t' d' o' y'
    assume IH: "\<And>a b c d e y. loop a b c d e = Some y \<Longrightarrow> P a b c d e y"
    assume body: "(case sunset_dip_continue m' t' o' of
        Inl e \<Rightarrow> Some (Inl e)
      | Inr continue \<Rightarrow>
          if continue
          then (let degrees' = (if js_greater m' (Fin 0) then d' + 1 / 1000 else d' - 1 / 1000)
                in case getSunsetOffsetByDegrees c' (js_plus GEOMETRIC_ZENITH (round_double degrees')) of
                     Inl e \<Rightarrow> Some (Inl e)
                   | Inr offsetByDegrees' \<Rightarrow> loop c' m' t' degrees' offsetByDegrees')
          else Some (Inr (Some (round_double d')))) = Some y'"
    show "P c' m' t' d' o' y'"
      unfolding P_def
    proof
      assume a: "c' = c \<and> m' = m \<and> t' = t \<and> o' = None \<and> (\<exists>k. d' = dip_degrees (1 / 1000) m k)"
      then obtain j where j: "d' = dip_degrees (1 / 1000) m j" by blast
      have s: "(if js_greater m (Fin 0) then d' + 1 / 1000 else d' - 1 / 1000)
          = dip_degrees (1 / 1000) m (Suc j)"
        by (simp add: j dip_degrees_Suc)
      from a have e: "c' = c" "m' = m" "t' = t" "o' = None" by blast+
      have step: "getSunsetOffsetByDegrees c
          (js_plus GEOMETRIC_ZENITH (round_double (dip_degrees (1 / 1000) m (Suc j)))) = Inr None"
        using inv [of j] by (simp add: sunset_dip_candidate_def)
      from body have "(case getSunsetOffsetByDegrees c
              (js_plus GEOMETRIC_ZENITH (round_double (dip_degrees (1 / 1000) m (Suc j)))) of
            Inl e \<Rightarrow> Some (Inl e)
          | Inr x \<Rightarrow> loop c m t (dip_degrees (1 / 1000) m (Suc j)) x) = Some y'"
        unfolding e Let_def s by (simp add: dip_continue_null)
      then have "loop c m t (dip_degrees (1 / 1000) m (Suc j)) None = Some y'"
        unfolding step by simp
      from IH [OF this] show False unfolding P_def by blast
    qed
  qed
  then show False unfolding P_def by blast
qed

lemma not_NaN_of_sign:
  "js_less m (Fin 0) \<or> js_greater m (Fin 0) \<Longrightarrow> \<not> isNaN m"
  by (cases m) (simp_all add: js_greater_def)

lemma getSunriseSolarDipFromOffset_throws:
  assumes m: "js_less m (Fin 0) \<or> js_greater m (Fin 0)"
    and s0: "sunrise_dip_candidate c m 0 = Inr s0"
    and t: "getTimeOffset s0 (js_negate (js_times m MINUTE_MILLIS)) = Inr t"
    and null: "\<forall>k<n. sunrise_dip_candidate c m k = Inr None"
    and d: "sunrise_dip_candidate c m n = Inr (Some d)"
  shows "getSunriseSolarDipFromOffset c m = Inl TypeError"
proof -
  have sl: "getSeaLevelSunrise c = Inr s0" using s0 by (simp add: sunrise_dip_candidate_def)
  have "sunriseSolarDip_loop c m t 0 s0 = Some (Inl TypeError)"
  proof (cases n)
    case 0
    then have "s0 = Some d" using s0 d by simp
    then show ?thesis by (simp add: sunriseSolarDip_loop_throws [OF m])
  next
    case (Suc j)
    then have "s0 = None" using null s0 by auto
    have "sunriseSolarDip_loop c m t (dip_degrees (1 / 10000) m 0) None
        = sunriseSolarDip_loop c m t (dip_degrees (1 / 10000) m j) None"
      using null Suc by (intro sunriseSolarDip_loop_steps) simp
    also have "\<dots> = sunriseSolarDip_loop c m t (dip_degrees (1 / 10000) m (Suc j)) (Some d)"
      using d Suc by (intro sunriseSolarDip_loop_step) simp
    also have "\<dots> = Some (Inl TypeError)" by (rule sunriseSolarDip_loop_throws [OF m])
    finally show ?thesis using \<open>s0 = None\<close> by (simp add: dip_degrees_0)
  qed
  then show ?thesis
    using not_NaN_of_sign [OF m] sl t
    by (simp add: getSunriseSolarDipFromOffset_def try_bind_def returned_def)
qed

lemma getSunsetSolarDipFromOffset_throws:
  assumes m: "js_less m (Fin 0) \<or> js_greater m (Fin 0)"
    and s0: "sunset_dip_candidate c m 0 = Inr s0"
    and t: "getTimeOffset s0 (js_times m MINUTE_MILLIS) = Inr t"
    and null: "\<forall>k<n. sunset_dip_candidate c m k = Inr None"
    and d: "sunset_dip_candidate c m n = Inr (Some d)"
  shows "getSunsetSolarDipFromOffset c m = Inl TypeError"
proof -
  have sl: "getSeaLevelSunset c = Inr s0" using s0 by (simp add: sunset_dip_candidate_def)
  have "sunsetSolarDip_loop c m t 0 s0 = Some (Inl TypeError)"
  proof (cases n)
    case 0
    then have "s0 = Some d" using s0 d by simp
    then show ?thesis by (simp add: sunsetSolarDip_loop_throws [OF m])
  next
    case (Suc j)
    then have "s0 = None" using null s0 by auto
    have "sunsetSolarDip_loop c m t (dip_degrees (1 / 1000) m 0) None
        = sunsetSolarDip_loop c m t (dip_degrees (1 / 1000) m j) None"
      using null Suc by (intro sunsetSolarDip_loop_steps) simp
    also have "\<dots> = sunsetSolarDip_loop c m t (dip_degrees (1 / 1000) m (Suc j)) (Some d)"
      using d Suc by (intro sunsetSolarDip_loop_step) simp
    also have "\<dots> = Some (Inl TypeError)" by (rule sunsetSolarDip_loop_throws [OF m])
    finally show ?thesis using \<open>s0 = None\<close> by (simp add: dip_degrees_0)
  qed
  then show ?thesis
    using not_NaN_of_sign [OF m] sl t
    by (simp add: getSunsetSolarDipFromOffset_def try_bind_def returned_def)
qed

lemma getSunriseSolarDipFromOffset_diverges:
  assumes m: "\<not> isNaN m" and null: "\<forall>k. sunrise_dip_candidate c m k = Inr None"
  shows "getSunriseSolarDipFromOffset c m = Inl NoReturn"
proof -
  have sl: "getSeaLevelSunrise c = Inr None"
    using null [rule_format, of 0] by (simp add: sunrise_dip_candidate_def)
  have "sunriseSolarDip_loop c m None (dip_degrees (1 / 10000) m 0) None = None"
    using null by (intro sunriseSolarDip_loop_diverges) simp
  then show ?thesis
    using m sl
    by (simp add: getSunriseSolarDipFromOffset_def try_bind_def returned_def getTimeOffset_def
        dip_degrees_0)
qed

lemma getSunsetSolarDipFromOffset_diverges:
  assumes m: "\<not> isNaN m" and null: "\<forall>k. sunset_dip_candidate c m k = Inr None"
  shows "getSunsetSolarDipFromOffset c m = Inl NoReturn"
proof -
  have sl: "getSeaLevelSunset c = Inr None"
    using null [rule_format, of 0] by (simp add: sunset_dip_candidate_def)
  have "sunsetSolarDip_loop c m None (dip_degrees (1 / 1000) m 0) None = None"
    using null by (intro sunsetSolarDip_loop_diverges) simp
  then show ?thesis
    using m sl
    by (simp add: getSunsetSolarDipFromOffset_def try_bind_def returned_def getTimeOffset_def
        dip_degrees_0)
qed

text \<open>
  C8, what the code does. The searches start their exact accumulator at 0 with the
  sea-level sunrise or sunset as the first candidate, and while the candidate is
  \<^verbatim>\<open>null\<close> they step the accumulator by exactly 0.0001 degrees (sunrise) or 0.001
  degrees (sunset), adding when \<open>minutes\<close> is positive and subtracting otherwise, and
  look at \<open>offsetByDegrees(90 + degrees)\<close> again, without a cap on the passes: when
  every candidate is \<^verbatim>\<open>null\<close> they do not return. But for \<open>minutes\<close> other than 0
  the first candidate that is not \<^verbatim>\<open>null\<close> is compared with the target instant by
  \<^verbatim>\<open><\<close> or \<^verbatim>\<open>>\<close>, and the search ends with a \<^verbatim>\<open>TypeError\<close> there: it never
  follows a candidate up to the target and never returns a dip.
\<close>

theorem solar_dip_search_throws_or_never_returns:
  assumes "js_less minutes (Fin 0) \<or> js_greater minutes (Fin 0)"
  shows "(sunrise_dip_candidate c minutes 0 = Inr s0
          \<and> getTimeOffset s0 (js_negate (js_times minutes MINUTE_MILLIS)) = Inr t
          \<and> (\<forall>k<n. sunrise_dip_candidate c minutes k = Inr None)
          \<and> sunrise_dip_candidate c minutes n = Inr (Some d)
        \<longrightarrow> getSunriseSolarDipFromOffset c minutes = Inl TypeError)
     \<and> (sunset_dip_candidate c minutes 0 = Inr s0'
          \<and> getTimeOffset s0' (js_times minutes MINUTE_MILLIS) = Inr t'
          \<and> (\<forall>k<n'. sunset_dip_candidate c minutes k = Inr None)
          \<and> sunset_dip_candidate c minutes n' = Inr (Some d')
        \<longrightarrow> getSunsetSolarDipFromOffset c minutes = Inl TypeError)
     \<and> ((\<forall>k. sunrise_dip_candidate c minutes k = Inr None)
        \<longrightarrow> getSunriseSolarDipFromOffset c minutes = Inl NoReturn)
     \<and> ((\<forall>k. sunset_dip_candidate c minutes k = Inr None)
        \<longrightarrow> getSunsetSolarDipFromOffset c minutes = Inl NoReturn)"
  using getSunriseSolarDipFromOffset_throws [OF assms, of c s0 t n d]
    getSunsetSolarDipFromOffset_throws [OF assms, of c s0' t' n' d']
    getSunriseSolarDipFromOffset_diverges [OF not_NaN_of_sign [OF assms], of c]
    getSunsetSolarDipFromOffset_diverges [OF not_NaN_of_sign [OF assms], of c]
  by blast

lemma polar_candidates:
  "sunrise_dip_candidate polar_calendar m k = Inr None"
  "sunset_dip_candidate polar_calendar m k = Inr None"
  by (simp_all add: sunrise_dip_candidate_def sunset_dip_candidate_def calendar_eval fixture_eval)

theorem solar_dip_search_throws_or_never_returns_witness:
  "(js_less (Fin 72) (Fin 0) \<or> js_greater (Fin 72) (Fin 0))
   \<and> getSeaLevelSunrise denver_calendar
       = Inr (Some \<lparr>epochNanoseconds = 1591356740625000000, timeZoneId = ''America/Denver''\<rparr>)
   \<and> getSunriseSolarDipFromOffset denver_calendar (Fin 72) = Inl TypeError
   \<and> getSeaLevelSunset denver_calendar
       = Inr (Some \<lparr>epochNanoseconds = 1591410304687000000, timeZoneId = ''America/Denver''\<rparr>)
   \<and> getSunsetSolarDipFromOffset denver_calendar (Fin 72) = Inl TypeError
   \<and> getSunriseSolarDipFromOffset polar_calendar (Fin 72) = Inl NoReturn
   \<and> getSunsetSolarDipFromOffset polar_calendar (Fin 72) = Inl NoReturn"
proof -
  have m: "js_less (Fin 72) (Fin 0) \<or> js_greater (Fin 72) (Fin 0)"
    by (simp add: js_greater_def)
  have off: "js_times (Fin 72) MINUTE_MILLIS = Fin 4320000"
    by (simp add: MINUTE_MILLIS_def round_double_exact)
  have r0: "sunrise_dip_candidate denver_calendar (Fin 72) 0
       = Inr (Some \<lparr>epochNanoseconds = 1591356740625000000, timeZoneId = ''America/Denver''\<rparr>)"
    by (simp add: sunrise_dip_candidate_def fixture_getSeaLevelSunrise)
  have s0: "sunset_dip_candidate denver_calendar (Fin 72) 0
       = Inr (Some \<lparr>epochNanoseconds = 1591410304687000000, timeZoneId = ''America/Denver''\<rparr>)"
    by (simp add: sunset_dip_candidate_def fixture_getSeaLevelSunset)
  have rt: "getTimeOffset
      (Some \<lparr>epochNanoseconds = 1591356740625000000, timeZoneId = ''America/Denver''\<rparr>)
      (js_negate (js_times (Fin 72) MINUTE_MILLIS))
       = Inr (Some \<lparr>epochNanoseconds = 1591352420625000000, timeZoneId = ''America/Denver''\<rparr>)"
    unfolding off by (simp add: getTimeOffset_Fin valid_instant_def truncation_def)
  have st: "getTimeOffset
      (Some \<lparr>epochNanoseconds = 1591410304687000000, timeZoneId = ''America/Denver''\<rparr>)
      (js_times (Fin 72) MINUTE_MILLIS)
       = Inr (Some \<lparr>epochNanoseconds = 1591414624687000000, timeZoneId = ''America/Denver''\<rparr>)"
    unfolding off by (simp add: getTimeOffset_Fin valid_instant_def truncation_def)
  note w = solar_dip_search_throws_or_never_returns [OF m, where c = denver_calendar
      and n = 0 and n' = 0]
  have a: "getSunriseSolarDipFromOffset denver_calendar (Fin 72) = Inl TypeError"
    using w r0 rt by blast
  have b: "getSunsetSolarDipFromOffset denver_calendar (Fin 72) = Inl TypeError"
    using w s0 st by blast
  note p = solar_dip_search_throws_or_never_returns [OF m, where c = polar_calendar]
  have c: "getSunriseSolarDipFromOffset polar_calendar (Fin 72) = Inl NoReturn"
    using p polar_candidates by blast
  have d: "getSunsetSolarDipFromOffset polar_calendar (Fin 72) = Inl NoReturn"
    using p polar_candidates by blast
  from m a b c d fixture_getSeaLevelSunrise fixture_getSeaLevelSunset show ?thesis by blast
qed

section \<open>getDateFromTime\<close>

lemma Math_trunc_nonneg: "0 \<le> x \<Longrightarrow> Math_trunc (Fin x) = Fin (real_of_int \<lfloor>x\<rfloor>)"
  by (simp add: truncation_def)

lemma js_minus_floor:
  assumes "is_double x" "0 \<le> x"
  shows "js_minus (Fin x) (Fin (real_of_int \<lfloor>x\<rfloor>)) = Fin (x - real_of_int \<lfloor>x\<rfloor>)"
  using round_double_exact [OF is_double_frac [OF assms]] by (simp add: js_minus_def)

text \<open>
  A double below 1 is at most \<open>1 - 2 ^ -53\<close>, so sixty times a double from 0 to below
  1 lies closer to the double next below 60 than to 60, and the product, rounded, stays
  below 60; likewise for a thousand times it.
\<close>

lemma sixty_fractions:
  assumes "is_double f" "0 \<le> f" "f < 1"
  shows "\<exists>r. js_times (Fin f) (Fin 60) = Fin r \<and> is_double r \<and> 0 \<le> r \<and> r < 60"
proof -
  define p :: real where "p = 8444249301319679 / 140737488355328"
  have dp: "is_double p"
    using is_double_dyadic [of 8444249301319679 47] by (simp add: p_def)
  have d60: "is_double 60" and d0: "is_double 0" by simp_all
  have fb: "f \<le> 1 - 1 / 9007199254740992"
    using is_double_less_1 [OF assms(1,3)] by simp
  define y where "y = f * 60"
  have y0: "0 \<le> y" using assms(2) by (simp add: y_def)
  have yb: "y \<le> 60 - 60 / 9007199254740992" using fb by (simp add: y_def)
  have pe: "p = 60 - 64 / 9007199254740992" by (simp add: p_def)
  have "\<exists>r. round_double y = Fin r \<and> is_double r \<and> 0 \<le> r \<and> r < 60"
  proof (cases "y \<le> p")
    case True
    from round_double_between [OF d0 dp y0 True]
    obtain r where "round_double y = Fin r" "is_double r" "0 \<le> r" "r \<le> p" by blast
    moreover have "p < 60" by (simp add: p_def)
    ultimately show ?thesis by fastforce
  next
    case False
    then have py: "p \<le> y" by simp
    have near: "y - p < 60 - y" using yb unfolding pe by linarith
    from round_double_closer [OF dp d60 py near]
    obtain r where "round_double y = Fin r" "is_double r" "p \<le> r" "r < 60" by blast
    moreover have "0 \<le> p" by (simp add: p_def)
    ultimately show ?thesis by fastforce
  qed
  then show ?thesis by (simp add: y_def)
qed

lemma thousand_fractions:
  assumes "is_double f" "0 \<le> f" "f < 1"
  shows "\<exists>r. js_times (Fin f) (Fin 1000) = Fin r \<and> is_double r \<and> 0 \<le> r \<and> r < 1000"
proof -
  define p :: real where "p = 8796093022207999 / 8796093022208"
  have dp: "is_double p"
    using is_double_dyadic [of 8796093022207999 43] by (simp add: p_def)
  have d1000: "is_double 1000" and d0: "is_double 0" by simp_all
  have fb: "f \<le> 1 - 1 / 9007199254740992"
    using is_double_less_1 [OF assms(1,3)] by simp
  define y where "y = f * 1000"
  have y0: "0 \<le> y" using assms(2) by (simp add: y_def)
  have yb: "y \<le> 1000 - 1000 / 9007199254740992" using fb by (simp add: y_def)
  have pe: "p = 1000 - 1024 / 9007199254740992" by (simp add: p_def)
  have "\<exists>r. round_double y = Fin r \<and> is_double r \<and> 0 \<le> r \<and> r < 1000"
  proof (cases "y \<le> p")
    case True
    from round_double_between [OF d0 dp y0 True]
    obtain r where "round_double y = Fin r" "is_double r" "0 \<le> r" "r \<le> p" by blast
    moreover have "p < 1000" by (simp add: p_def)
    ultimately show ?thesis by fastforce
  next
    case False
    then have py: "p \<le> y" by simp
    have near: "y - p < 1000 - y" using yb unfolding pe by linarith
    from round_double_closer [OF dp d1000 py near]
    obtain r where "round_double y = Fin r" "is_double r" "p \<le> r" "r < 1000" by blast
    moreover have "0 \<le> p" by (simp add: p_def)
    ultimately show ?thesis by fastforce
  qed
  then show ?thesis by (simp add: y_def)
qed

lemma frac_bounds: "0 \<le> x - real_of_int \<lfloor>x\<rfloor>" "x - real_of_int \<lfloor>x\<rfloor> < 1"
  by linarith+

lemma sixty_of_fraction:
  assumes "is_double x" "0 \<le> x"
  shows "\<exists>r. js_times (js_minus (Fin x) (Fin (real_of_int \<lfloor>x\<rfloor>))) (Fin 60) = Fin r
           \<and> is_double r \<and> 0 \<le> r \<and> r < 60"
  unfolding js_minus_floor [OF assms]
  by (rule sixty_fractions [OF is_double_frac [OF assms] frac_bounds])

lemma thousand_of_fraction:
  assumes "is_double x" "0 \<le> x"
  shows "\<exists>r. js_times (js_minus (Fin x) (Fin (real_of_int \<lfloor>x\<rfloor>))) (Fin 1000) = Fin r
           \<and> is_double r \<and> 0 \<le> r \<and> r < 1000"
  unfolding js_minus_floor [OF assms]
  by (rule thousand_fractions [OF is_double_frac [OF assms] frac_bounds])

lemma floor_range:
  assumes "0 \<le> x" "x < real_of_int n"
  shows "0 \<le> \<lfloor>x\<rfloor>" "\<lfloor>x\<rfloor> \<le> n - 1"
proof -
  show "0 \<le> \<lfloor>x\<rfloor>" using assms(1) by simp
  have "\<lfloor>x\<rfloor> < n" using assms(2) by (simp add: floor_less_iff)
  then show "\<lfloor>x\<rfloor> \<le> n - 1" by simp
qed

lemma new_PlainTime_whole:
  assumes "0 \<le> h" "h \<le> 23" "0 \<le> m" "m \<le> 59" "0 \<le> s" "s \<le> 59" "0 \<le> ms" "ms \<le> 999"
  shows "new_PlainTime (Fin (real_of_int h)) (Fin (real_of_int m)) (Fin (real_of_int s))
           (Fin (real_of_int ms))
         = Inr \<lparr>hour = h, minute = m, second = s, millisecond = ms\<rparr>"
  using assms by (simp add: new_PlainTime_def try_bind_def)

lemma attach_time:
  assumes "- 100000000 \<le> d" "d \<le> 99999999"
    and "0 \<le> h" "h \<le> 23" "0 \<le> m" "m \<le> 59" "0 \<le> s" "s \<le> 59" "0 \<le> ms" "ms \<le> 999"
  shows "toZonedDateTime_UTC d \<lparr>hour = h, minute = m, second = s, millisecond = ms\<rparr>
         = Inr \<lparr>epochNanoseconds = (86400000 * d + 3600000 * h + 60000 * m + 1000 * s + ms) * 1000000,
                 timeZoneId = ''UTC''\<rparr>"
proof -
  define X where "X = 86400000 * d + 3600000 * h + 60000 * m + 1000 * s + ms"
  have "- 8640000000000000 \<le> X" "X \<le> 8639999999999999"
    unfolding X_def using assms by linarith+
  then have "- 8640000000000000000000 \<le> X * 1000000" "X * 1000000 \<le> 8640000000000000000000"
    by linarith+
  then have "valid_instant (X * 1000000)"
    by (auto simp: valid_instant_def abs_le_iff)
  then show ?thesis by (simp add: toZonedDateTime_UTC_def X_def)
qed

lemma longitude_hours:
  assumes "is_double lon" "- 180 \<le> lon" "lon \<le> 180"
  shows "\<exists>q. js_divide (Fin lon) (Fin 15) = Fin q \<and> - 12 \<le> truncation q \<and> truncation q \<le> 12"
proof -
  have "- 12 \<le> lon / 15" "lon / 15 \<le> 12" using assms(2,3) by simp_all
  from round_double_between [OF _ _ this]
  obtain q where q: "round_double (lon / 15) = Fin q" "- 12 \<le> q" "q \<le> 12" by auto
  have "- 12 \<le> truncation q" "truncation q \<le> 12"
    using q(2,3) unfolding truncation_def by (simp_all add: le_floor_iff ceiling_le_iff)
  then show ?thesis using q(1) by simp
qed

lemma js_plus_small_ints:
  assumes "- 12 \<le> l" "l \<le> 12" "0 \<le> h" "h \<le> 23"
  shows "js_plus (Fin (real_of_int l)) (Fin (real_of_int h)) = Fin (real_of_int (l + h))"
proof -
  have "\<bar>l + h\<bar> \<le> 2 ^ 53" using assms by (simp add: abs_le_2_53)
  from round_double_exact [OF is_double_int [OF this]] show ?thesis by simp
qed


lemma west_calendar_valid:
  "valid_GeoLocation (geoLocation west_calendar)"
  "- 99999998 \<le> date west_calendar" "date west_calendar \<le> 99999997"
  by (simp_all add: valid_GeoLocation_def west_calendar_def)



end
